theory Spec2Isabelle
  imports Main "HOL-Library.Sublist" "HOL-Library.Multiset"
begin

section \<open>Attribute values of the plan and the update collection\<close>

text \<open>
  The plugin framework's attribute values are null, unknown or known.
  \<open>ValueString\<close> of a null or unknown string is the empty string.
\<close>

datatype tfstring = StringNull | StringUnknown | StringValue string

datatype tfbool = BoolNull | BoolUnknown | BoolValue bool

datatype tflist = ListNull | ListUnknown | ListValue "tfstring list"

fun IsNull :: "tfstring \<Rightarrow> bool" where
  "IsNull StringNull = True"
| "IsNull _ = False"

fun IsUnknown :: "tfstring \<Rightarrow> bool" where
  "IsUnknown StringUnknown = True"
| "IsUnknown _ = False"

fun ValueString :: "tfstring \<Rightarrow> string" where
  "ValueString (StringValue s) = s"
| "ValueString _ = []"

fun ListIsNull :: "tflist \<Rightarrow> bool" where
  "ListIsNull ListNull = True"
| "ListIsNull _ = False"

fun ListIsUnknown :: "tflist \<Rightarrow> bool" where
  "ListIsUnknown ListUnknown = True"
| "ListIsUnknown _ = False"

text \<open>
  \<open>ElementsAs\<close> into a slice of Go strings, unhandled values not allowed: a
  null or unknown element cannot become a Go string and is reported as an
  error (\<open>None\<close>). The program calls it on known lists only.
\<close>

fun elementAsString :: "tfstring \<Rightarrow> string option" where
  "elementAsString (StringValue s) = Some s"
| "elementAsString _ = None"

fun elementsAsStrings :: "tfstring list \<Rightarrow> string list option" where
  "elementsAsStrings [] = Some []"
| "elementsAsStrings (e # es) =
     (case elementAsString e of
        None \<Rightarrow> None
      | Some s \<Rightarrow> (case elementsAsStrings es of None \<Rightarrow> None | Some ss \<Rightarrow> Some (s # ss)))"

fun ElementsAs :: "tflist \<Rightarrow> string list option" where
  "ElementsAs (ListValue es) = elementsAsStrings es"
| "ElementsAs ListNull = Some []"
| "ElementsAs ListUnknown = None"

record RedfishServer =
  Endpoint :: tfstring

record OnlineUpdateResourceModel =
  IdAttr :: tfstring
  RedfishServer :: "RedfishServer list"
  UpdateList :: tflist
  ExecuteOnlineUpdOperationTime :: tfstring
  ExecuteOnlineUpdScheduleTime :: tfstring

record OnlineUpdateCheckItem =
  Designation :: tfstring
  Component :: tfstring
  SubComponent :: tfstring
  CurrentVersion :: tfstring
  NewVersion :: tfstring
  Severity :: tfstring
  Status :: tfstring
  RebootRequired :: tfstring
  Downloaded :: tfbool
  ExecutionStatus :: tfstring
  RelNotePath :: tfstring

record OnlineUpdateCheck =
  LastStatusChangeDate :: tfstring
  UpdateCollection :: "OnlineUpdateCheckItem list"

section \<open>Go's \<open>strings.TrimSpace\<close> on byte strings\<close>

text \<open>
  A Go string is a byte sequence; \<open>TrimSpace\<close> removes the leading and the
  trailing runes that \<open>unicode.IsSpace\<close> accepts. Those runes are listed
  here by their UTF-8 encodings: tab, line feed, vertical tab, form feed,
  carriage return, space, U+0085, U+00A0, U+1680, U+2000 to U+200A, U+2028,
  U+2029, U+202F, U+205F and U+3000. A byte sequence that is not one of these
  encodings decodes to a rune that is no space, and stops the trimming.
\<close>

definition whiteSpace :: "string list" where
  "whiteSpace =
     [[CHR 0x09], [CHR 0x0A], [CHR 0x0B], [CHR 0x0C], [CHR 0x0D], [CHR 0x20],
      [CHR 0xC2, CHR 0x85], [CHR 0xC2, CHR 0xA0],
      [CHR 0xE1, CHR 0x9A, CHR 0x80],
      [CHR 0xE2, CHR 0x80, CHR 0x80], [CHR 0xE2, CHR 0x80, CHR 0x81],
      [CHR 0xE2, CHR 0x80, CHR 0x82], [CHR 0xE2, CHR 0x80, CHR 0x83],
      [CHR 0xE2, CHR 0x80, CHR 0x84], [CHR 0xE2, CHR 0x80, CHR 0x85],
      [CHR 0xE2, CHR 0x80, CHR 0x86], [CHR 0xE2, CHR 0x80, CHR 0x87],
      [CHR 0xE2, CHR 0x80, CHR 0x88], [CHR 0xE2, CHR 0x80, CHR 0x89],
      [CHR 0xE2, CHR 0x80, CHR 0x8A],
      [CHR 0xE2, CHR 0x80, CHR 0xA8], [CHR 0xE2, CHR 0x80, CHR 0xA9],
      [CHR 0xE2, CHR 0x80, CHR 0xAF],
      [CHR 0xE2, CHR 0x81, CHR 0x9F],
      [CHR 0xE3, CHR 0x80, CHR 0x80]]"

function trimLeading :: "string list \<Rightarrow> string \<Rightarrow> string" where
  "trimLeading ps s =
     (case find (\<lambda>p. p \<noteq> [] \<and> prefix p s) ps of
        None \<Rightarrow> s
      | Some p \<Rightarrow> trimLeading ps (drop (length p) s))"
  by pat_completeness auto
termination
proof (relation "measure (\<lambda>(ps, s). length s)")
  show "wf (measure (\<lambda>(ps, s). length s))" by simp
next
  fix ps :: "string list" and s p :: string
  assume "find (\<lambda>p. p \<noteq> [] \<and> prefix p s) ps = Some p"
  then have "p \<noteq> []" and "prefix p s"
    by (auto simp: find_Some_iff)
  then have "0 < length p" and "length p \<le> length s"
    by (auto simp: prefix_def)
  then have "length s - length p < length s"
    by arith
  then show "((ps, drop (length p) s), (ps, s)) \<in> measure (\<lambda>(ps, s). length s)"
    by simp
qed

definition TrimLeft :: "string \<Rightarrow> string" where
  "TrimLeft s = trimLeading whiteSpace s"

definition TrimRight :: "string \<Rightarrow> string" where
  "TrimRight s = rev (trimLeading (map rev whiteSpace) (rev s))"

definition TrimSpace :: "string \<Rightarrow> string" where
  "TrimSpace s = TrimRight (TrimLeft s)"

section \<open>Errors and logged warnings\<close>

text \<open>
  One constructor for each error the update helpers build, with the values
  its message is formatted from. An error of the HTTP client, of the JSON
  decoder or of another collaborator is carried as its message.
\<close>

datatype err =
    InvalidUpdateListFormat
  | ScheduleTimeRequired
  | PostRequestFailed string
  | PostStatus int
  | PostStatusBody int string
  | TaskLocationNotFound
  | DeselectPostFailed string string
  | DeselectStatus string int string
  | UnexpectedResponseStatus int string
  | UnexpectedStatusCode int string
  | DecodeJSONFailed string
  | CollectionNotReady int
  | TaskNotCompleted "string option"
  | TaskFailed "string option" string
  | LicenseGetFailed string string
  | LicenseStatus int string
  | LicenseDecodeFailed string
  | LicenseNotFound
  | CollaboratorError string

text \<open>
  The messages handed to \<open>tflog.Warn\<close>; informational lines are not
  modelled.
\<close>

datatype warning =
    UnrecognizedItem string
  | ScheduleTimeIgnored
  | LocationHeaderNotFound
  | BodyCloseError string

text \<open>
  \<open>tflog.Warn\<close> writes through the logger that the context carries and
  does nothing when the context carries none. The context of a request
  carries the provider's logger; \<open>context.Background()\<close> carries none.
  The result is the list of lines written.
\<close>

datatype logContext = ContextBackground | ContextOfRequest

fun tflogWarn :: "logContext \<Rightarrow> warning \<Rightarrow> warning list" where
  "tflogWarn ContextBackground w = []"
| "tflogWarn ContextOfRequest w = [w]"

section \<open>Selection: \<open>PrepareUpdateLists\<close>\<close>

definition allowedUpdateComponents :: "string set" where
  "allowedUpdateComponents =
     {''Agent-Lx'', ''Agent-Win'', ''FibreChannelController'', ''LanController'',
      ''ManagementController'', ''PrimSupportPack-Win'', ''ScsiController'',
      ''Storage'', ''SystemBoard'', ''Others''}"

text \<open>The local variables that the loop over the requested updates assigns.\<close>

record requests =
  requestedDesignations :: "string set"
  requestedComponents :: "string set"
  applyOthers :: bool
  noneEmptyRequest :: bool

definition noRequests :: requests where
  "noRequests =
     \<lparr>requestedDesignations = {}, requestedComponents = {},
      applyOthers = False, noneEmptyRequest = False\<rparr>"

text \<open>
  One iteration of the loop over \<open>requestedUpdates\<close>. The warning for an
  unrecognized entry is logged with \<open>ctx := context.Background()\<close>.
\<close>

definition requestStep :: "string \<Rightarrow> requests \<times> warning list \<Rightarrow> requests \<times> warning list" where
  "requestStep req acc =
     (let st = fst acc; ws = snd acc; trimmedReq = TrimSpace req in
      if trimmedReq = [] then (st, ws)
      else
        let st1 = st\<lparr>noneEmptyRequest := True\<rparr> in
        if trimmedReq = ''Others'' then (st1\<lparr>applyOthers := True\<rparr>, ws)
        else if CHR ''/'' \<in> set trimmedReq then
          (st1\<lparr>requestedDesignations := insert trimmedReq (requestedDesignations st1)\<rparr>, ws)
        else if trimmedReq \<in> allowedUpdateComponents then
          (st1\<lparr>requestedComponents := insert trimmedReq (requestedComponents st1)\<rparr>, ws)
        else (st1, ws @ tflogWarn ContextBackground (UnrecognizedItem trimmedReq)))"

text \<open>The value of \<open>isSelected\<close> at the end of one iteration of the loop over the collection.\<close>

definition isSelected :: "requests \<Rightarrow> bool \<Rightarrow> OnlineUpdateCheckItem \<Rightarrow> bool" where
  "isSelected st applyAll item =
     (let designation = ValueString (Designation item);
          component = ValueString (Component item) in
      if applyAll then True
      else
        let sel1 = (designation \<in> requestedDesignations st);
            sel2 = (if \<not> sel1 then component \<in> requestedComponents st else sel1);
            sel3 = (if \<not> sel2 \<and> applyOthers st
                    then component \<notin> allowedUpdateComponents else sel2)
        in sel3)"

definition itemStep ::
  "requests \<Rightarrow> bool \<Rightarrow> OnlineUpdateCheckItem \<Rightarrow> string list \<times> string list \<Rightarrow> string list \<times> string list" where
  "itemStep st applyAll item acc =
     (let selectedDesignations = fst acc; deselectedDesignations = snd acc;
          designation = ValueString (Designation item) in
      if isSelected st applyAll item then
        (selectedDesignations @ [designation], deselectedDesignations)
      else if \<not> applyAll then
        (selectedDesignations, deselectedDesignations @ [designation])
      else (selectedDesignations, deselectedDesignations))"

text \<open>
  The result is the error or the pair (selected, deselected), together with
  the lines written to the log on the way.
\<close>

definition PrepareUpdateLists ::
  "OnlineUpdateResourceModel \<Rightarrow> OnlineUpdateCheck
     \<Rightarrow> (err + string list \<times> string list) \<times> warning list" where
  "PrepareUpdateLists plan collection =
     (let userProvidedList =
            (\<not> ListIsNull (UpdateList plan) \<and> \<not> ListIsUnknown (UpdateList plan)) in
      case (if userProvidedList then ElementsAs (UpdateList plan) else Some []) of
        None \<Rightarrow> (Inl InvalidUpdateListFormat, [])
      | Some requestedUpdates \<Rightarrow>
          let scanned = fold requestStep requestedUpdates (noRequests, []);
              st = fst scanned;
              applyAll = (\<not> noneEmptyRequest st)
          in (Inr (fold (itemStep st applyAll) (UpdateCollection collection) ([], [])),
              snd scanned))"

section \<open>Payload of the execute call: \<open>BuildExecutePayload\<close>\<close>

text \<open>
  What is posted: a JSON value. A Go map with string keys is a partial
  function from the keys.
\<close>

datatype jvalue = JString string | JArray "jvalue list" | JObject "string \<Rightarrow> jvalue option"

text \<open>
  The result is the error or the payload, together with the lines written
  to the log. The warning about a schedule time that is ignored is logged
  with \<open>context.Background()\<close>.
\<close>

definition BuildExecutePayload ::
  "OnlineUpdateResourceModel \<Rightarrow> bool \<Rightarrow> (err + (string \<rightharpoonup> jvalue)) \<times> warning list" where
  "BuildExecutePayload plan isFsas =
     (let payload0 = [''ExecutionMode'' \<mapsto> JString ''ExecuteUpdate''];
          operationTimeType =
            (if \<not> IsNull (ExecuteOnlineUpdOperationTime plan)
                \<and> \<not> IsUnknown (ExecuteOnlineUpdOperationTime plan)
             then ValueString (ExecuteOnlineUpdOperationTime plan)
             else ''Immediately'');
          payload = payload0(''SchedulingType'' \<mapsto> JString operationTimeType);
          scheduleGiven =
            (\<not> IsNull (ExecuteOnlineUpdScheduleTime plan)
             \<and> \<not> IsUnknown (ExecuteOnlineUpdScheduleTime plan))
      in
      if operationTimeType = ''Once'' then
        (if scheduleGiven then
           (Inr (payload(''StartDate'' \<mapsto>
                   JString (ValueString (ExecuteOnlineUpdScheduleTime plan)))), [])
         else (Inl ScheduleTimeRequired, []))
      else if scheduleGiven then
        (Inr payload, tflogWarn ContextBackground ScheduleTimeIgnored)
      else (Inr payload, []))"

section \<open>The collaborators of the update helpers\<close>

text \<open>
  What the HTTP client hands back: the status code, the value of the task
  location header (empty when the header is absent), what \<open>io.ReadAll\<close>
  yields for the body and whether it reports an error, and the error of
  closing the body, if any.
\<close>

record http_response =
  StatusCode :: int
  LocationHeader :: string
  Body :: string
  ReadError :: bool
  CloseError :: "string option"

text \<open>The anonymous struct that \<open>GetOnlineUpdateCollection\<close> decodes the body into.\<close>

record item_json =
  json_Designation :: string
  json_Component :: string
  json_SubComponent :: string
  json_Current :: string
  json_New :: string
  json_Severity :: string
  json_ItemStatus :: string
  json_Reboot :: string
  json_Downloaded :: bool
  json_Execution :: string
  json_RelNotePath :: string

record collection_json =
  json_Status :: string
  json_LastStatusChangeDate :: string
  json_UpdateCollection :: "item_json list"

text \<open>
  Everything a run does to the outside world, in order. A warning written
  to the log is an event too. The helpers that take a context are called
  with the context of the request.
\<close>

datatype event =
    MutexLock string string
  | MutexUnlock string string
  | Connect
  | Logout
  | VendorCheck
  | HttpGet string
  | HttpPost string jvalue
  | Sleep int
  | TaskWait string int
  | TaskLogFetch string bool
  | Warn warning

text \<open>
  The functions and constants that the sources under verification call but
  do not define. Each effectful one answers from the events so far, so any
  deterministic target system is an instance. Times are nanoseconds since
  the epoch; durations are nanoseconds.
\<close>

record env =
  connectTargetSystem :: "event list \<Rightarrow> RedfishServer list \<Rightarrow> string option"
  isFsasCheck :: "event list \<Rightarrow> string + bool"
  clientGet :: "event list \<Rightarrow> string \<Rightarrow> string + http_response"
  clientPost :: "event list \<Rightarrow> string \<Rightarrow> jvalue \<Rightarrow> string + http_response"
  waitForRedfishTaskEnd :: "event list \<Rightarrow> string \<Rightarrow> int \<Rightarrow> bool \<times> string option"
  fetchRedfishTaskLog :: "event list \<Rightarrow> string \<Rightarrow> bool \<Rightarrow> string \<times> bool"
  decodeLicense :: "http_response \<Rightarrow> string + string list"
  decodeCollection :: "http_response \<Rightarrow> string + collection_json"
  timeNow :: "event list \<Rightarrow> int"
  timeParseRFC3339 :: "string \<Rightarrow> int option"
  tokenFSAS :: string
  tokenTS_FUJITSU :: string
  tokenFTS :: string

definition Second :: int where
  "Second = 1000000000"

definition Hour :: int where
  "Hour = 3600 * Second"

definition CACHE_DURATION :: int where
  "CACHE_DURATION = 6 * Hour"

definition DEFAULT_ONLINEUPDATE_TIMEOUT :: int where
  "DEFAULT_ONLINEUPDATE_TIMEOUT = 6000"

text \<open>
  \<open>time.Since\<close>: the difference to the current wall clock as a 64-bit
  duration, which saturates at the least and the greatest duration.
\<close>

definition minDuration :: int where
  "minDuration = - (2 ^ 63)"

definition maxDuration :: int where
  "maxDuration = 2 ^ 63 - 1"

definition Since :: "env \<Rightarrow> event list \<Rightarrow> int \<Rightarrow> int" where
  "Since e tr t =
     (let d = timeNow e tr - t in
      if d < minDuration then minDuration
      else if maxDuration < d then maxDuration
      else d)"

section \<open>Endpoints\<close>

record onlineUpdateEndpoints =
  checkEndpoint :: string
  collectionEndpoint :: string
  modifyCollectionEndpoint :: string

definition actionEndpoint :: "string \<Rightarrow> string \<Rightarrow> string \<Rightarrow> string" where
  "actionEndpoint oem vendor action =
     ''/redfish/v1/Systems/0/Oem/'' @ oem @ ''/eLCM/Actions/'' @ vendor @ action"

definition GetOnlineUpdateEndpoints :: "env \<Rightarrow> bool \<Rightarrow> onlineUpdateEndpoints" where
  "GetOnlineUpdateEndpoints e isFsas =
     (if isFsas then
        \<lparr>checkEndpoint = actionEndpoint (tokenFSAS e) (tokenFSAS e) ''eLCM.OnlineUpdate'',
         collectionEndpoint =
           actionEndpoint (tokenFSAS e) (tokenFSAS e) ''eLCM.OnlineUpdateGetCollection'',
         modifyCollectionEndpoint =
           actionEndpoint (tokenFSAS e) (tokenFSAS e) ''eLCM.OnlineUpdateModifyCollection''\<rparr>
      else
        \<lparr>checkEndpoint = actionEndpoint (tokenTS_FUJITSU e) (tokenFTS e) ''eLCM.OnlineUpdate'',
         collectionEndpoint =
           actionEndpoint (tokenTS_FUJITSU e) (tokenFTS e) ''eLCM.OnlineUpdateGetCollection'',
         modifyCollectionEndpoint =
           actionEndpoint (tokenTS_FUJITSU e) (tokenFTS e)
             ''eLCM.OnlineUpdateModifyCollection''\<rparr>)"

definition GetLicenseEndpoint :: "env \<Rightarrow> bool \<Rightarrow> string" where
  "GetLicenseEndpoint e isFsas =
     (if isFsas
      then ''/redfish/v1/Managers/iRMC/Oem/'' @ tokenFSAS e @ ''/iRMCConfiguration/Licenses''
      else ''/redfish/v1/Managers/iRMC/Oem/'' @ tokenTS_FUJITSU e
             @ ''/iRMCConfiguration/Licenses'')"

section \<open>The update helpers\<close>

definition CheckELCMLicense :: "env \<Rightarrow> event list \<Rightarrow> string \<Rightarrow> err option \<times> event list" where
  "CheckELCMLicense e tr endpoint =
     (let tr1 = tr @ [HttpGet endpoint] in
      case clientGet e tr endpoint of
        Inl msg \<Rightarrow> (Some (LicenseGetFailed endpoint msg), tr1)
      | Inr resp \<Rightarrow>
          if StatusCode resp \<noteq> 200 then
            (Some (LicenseStatus (StatusCode resp) (Body resp)), tr1)
          else
            (case decodeLicense e resp of
               Inl msg \<Rightarrow> (Some (LicenseDecodeFailed msg), tr1)
             | Inr keys \<Rightarrow>
                 if ''eLCM'' \<in> set keys then (None, tr1) else (Some LicenseNotFound, tr1)))"

definition checkPayload :: jvalue where
  "checkPayload =
     JObject [''ExecutionMode'' \<mapsto> JString ''CheckForUpdate'',
              ''SchedulingType'' \<mapsto> JString ''Immediately'']"

definition TriggerOnlineUpdateCheck ::
  "env \<Rightarrow> event list \<Rightarrow> string \<Rightarrow> (err + string) \<times> event list" where
  "TriggerOnlineUpdateCheck e tr endpoint =
     (let tr1 = tr @ [HttpPost endpoint checkPayload] in
      case clientPost e tr endpoint checkPayload of
        Inl msg \<Rightarrow> (Inl (PostRequestFailed msg), tr1)
      | Inr respPost \<Rightarrow>
          if StatusCode respPost \<noteq> 200 \<and> StatusCode respPost \<noteq> 202
             \<and> StatusCode respPost \<noteq> 201 \<and> StatusCode respPost \<noteq> 204 then
            (Inl (UnexpectedResponseStatus (StatusCode respPost) (Body respPost)), tr1)
          else if LocationHeader respPost = [] then
            (Inr [], tr1 @ map Warn (tflogWarn ContextOfRequest LocationHeaderNotFound))
          else (Inr (LocationHeader respPost), tr1))"

text \<open>
  \<open>GetOnlineUpdateCollection\<close> returns a collection, an in-progress flag
  and an error, in three shapes: an error alone, the flag alone, or a
  collection alone.
\<close>

datatype fetch = InProgress | Ready OnlineUpdateCheck

definition toCheckItem :: "item_json \<Rightarrow> OnlineUpdateCheckItem" where
  "toCheckItem u =
     \<lparr>Designation = StringValue (json_Designation u),
      Component = StringValue (json_Component u),
      SubComponent = StringValue (json_SubComponent u),
      CurrentVersion = StringValue (json_Current u),
      NewVersion = StringValue (json_New u),
      Severity = StringValue (json_Severity u),
      Status = StringValue (json_ItemStatus u),
      RebootRequired = StringValue (json_Reboot u),
      Downloaded = BoolValue (json_Downloaded u),
      ExecutionStatus = StringValue (json_Execution u),
      RelNotePath = StringValue (json_RelNotePath u)\<rparr>"

definition GetOnlineUpdateCollection ::
  "env \<Rightarrow> event list \<Rightarrow> string \<Rightarrow> (err + fetch) \<times> event list" where
  "GetOnlineUpdateCollection e tr endpoint =
     (let tr1 = tr @ [HttpPost endpoint (JObject Map.empty)] in
      case clientPost e tr endpoint (JObject Map.empty) of
        Inl msg \<Rightarrow> (Inl (PostRequestFailed msg), tr1)
      | Inr resp \<Rightarrow>
          if StatusCode resp \<noteq> 200 then
            (Inl (UnexpectedStatusCode (StatusCode resp) (Body resp)), tr1)
          else
            (case decodeCollection e resp of
               Inl msg \<Rightarrow> (Inl (DecodeJSONFailed msg), tr1)
             | Inr result \<Rightarrow>
                 if json_Status result = ''InProgress'' then (Inr InProgress, tr1)
                 else
                   (Inr (Ready
                      \<lparr>LastStatusChangeDate = StringValue (json_LastStatusChangeDate result),
                       UpdateCollection = map toCheckItem (json_UpdateCollection result)\<rparr>),
                    tr1)))"

text \<open>
  The loop of \<open>GetOnlineUpdateCollectionWithRetry\<close>, by the number of
  iterations still to run; \<open>retries\<close> is kept for the error.
\<close>

fun retryLoop ::
  "env \<Rightarrow> event list \<Rightarrow> string \<Rightarrow> int \<Rightarrow> int \<Rightarrow> nat \<Rightarrow> (err + OnlineUpdateCheck) \<times> event list" where
  "retryLoop e tr endpoint retries delay 0 = (Inl (CollectionNotReady retries), tr)"
| "retryLoop e tr endpoint retries delay (Suc k) =
     (case GetOnlineUpdateCollection e tr endpoint of
        (Inl er, tr1) \<Rightarrow> (Inl er, tr1)
      | (Inr InProgress, tr1) \<Rightarrow> retryLoop e (tr1 @ [Sleep delay]) endpoint retries delay k
      | (Inr (Ready collection), tr1) \<Rightarrow> (Inr collection, tr1))"

definition GetOnlineUpdateCollectionWithRetry ::
  "env \<Rightarrow> event list \<Rightarrow> string \<Rightarrow> int \<Rightarrow> int \<Rightarrow> (err + OnlineUpdateCheck) \<times> event list" where
  "GetOnlineUpdateCollectionWithRetry e tr endpoint retries delay =
     retryLoop e tr endpoint retries delay (nat retries)"

definition CheckOnlineUpdateStatus ::
  "env \<Rightarrow> event list \<Rightarrow> string \<Rightarrow> int \<Rightarrow> bool \<Rightarrow> err option \<times> event list" where
  "CheckOnlineUpdateStatus e tr location timeout isFsas =
     (let waited = waitForRedfishTaskEnd e tr location timeout;
          finishedSuccessfully = fst waited; er = snd waited;
          tr1 = tr @ [TaskWait location timeout] in
      if er \<noteq> None \<or> \<not> finishedSuccessfully then
        (let fetched = fetchRedfishTaskLog e tr1 location isFsas;
             taskLog = fst fetched; diagsHasError = snd fetched;
             tr2 = tr1 @ [TaskLogFetch location isFsas] in
         if diagsHasError then (Some (TaskNotCompleted er), tr2)
         else (Some (TaskFailed er taskLog), tr2))
      else (None, tr1))"

definition IsCollectionCacheValid :: "env \<Rightarrow> event list \<Rightarrow> string \<Rightarrow> bool \<times> event list" where
  "IsCollectionCacheValid e tr endpoint =
     (case GetOnlineUpdateCollectionWithRetry e tr endpoint 2 (1 * Second) of
        (Inl er, tr1) \<Rightarrow> (False, tr1)
      | (Inr existingCollection, tr1) \<Rightarrow>
          if \<not> IsNull (LastStatusChangeDate existingCollection)
             \<and> \<not> IsUnknown (LastStatusChangeDate existingCollection) then
            (let dateStr = ValueString (LastStatusChangeDate existingCollection) in
             case timeParseRFC3339 e dateStr of
               Some lastCheckTime \<Rightarrow>
                 if Since e tr1 lastCheckTime < CACHE_DURATION then (True, tr1)
                 else (False, tr1)
             | None \<Rightarrow> (False, tr1))
          else (False, tr1))"

section \<open>The execution driver\<close>

definition deselectPayload :: "string \<Rightarrow> jvalue" where
  "deselectPayload designation =
     JObject [''UpdateCollectionModifications'' \<mapsto>
       JArray [JObject [''Designation'' \<mapsto> JString designation,
                        ''Execution'' \<mapsto> JString ''deselected'']]]"

text \<open>
  The loop of \<open>DeselectUpdates\<close>. The body text of a refused request is
  read after the body is closed; the error keeps the designation and the
  status code.
\<close>

fun deselectLoop :: "env \<Rightarrow> event list \<Rightarrow> string \<Rightarrow> string list \<Rightarrow> err option \<times> event list" where
  "deselectLoop e tr modifyEndpoint [] = (None, tr)"
| "deselectLoop e tr modifyEndpoint (designation # rest) =
     (let tr1 = tr @ [HttpPost modifyEndpoint (deselectPayload designation)] in
      case clientPost e tr modifyEndpoint (deselectPayload designation) of
        Inl msg \<Rightarrow> (Some (DeselectPostFailed designation msg), tr1)
      | Inr res \<Rightarrow>
          (let tr2 = (case CloseError res of
                        None \<Rightarrow> tr1
                      | Some msg \<Rightarrow>
                          tr1 @ map Warn (tflogWarn ContextOfRequest (BodyCloseError msg))) in
           if StatusCode res \<noteq> 200 \<and> StatusCode res \<noteq> 204 then
             (Some (DeselectStatus designation (StatusCode res) []), tr2)
           else deselectLoop e tr2 modifyEndpoint rest))"

definition DeselectUpdates ::
  "env \<Rightarrow> event list \<Rightarrow> string \<Rightarrow> string list \<Rightarrow> err option \<times> event list" where
  "DeselectUpdates e tr modifyEndpoint designationsToDeselect =
     (if length designationsToDeselect = 0 then (None, tr)
      else deselectLoop e tr modifyEndpoint designationsToDeselect)"

definition TriggerOnlineUpdateExecute ::
  "env \<Rightarrow> event list \<Rightarrow> string \<Rightarrow> (string \<rightharpoonup> jvalue) \<Rightarrow> (err + string) \<times> event list" where
  "TriggerOnlineUpdateExecute e tr endpoint payload =
     (let tr1 = tr @ [HttpPost endpoint (JObject payload)] in
      case clientPost e tr endpoint (JObject payload) of
        Inl msg \<Rightarrow> (Inl (PostRequestFailed msg), tr1)
      | Inr respPost \<Rightarrow>
          if StatusCode respPost \<noteq> 202 \<and> StatusCode respPost \<noteq> 200
             \<and> StatusCode respPost \<noteq> 204 \<and> StatusCode respPost \<noteq> 201 then
            (if ReadError respPost then (Inl (PostStatus (StatusCode respPost)), tr1)
             else (Inl (PostStatusBody (StatusCode respPost) (Body respPost)), tr1))
          else if LocationHeader respPost = [] then (Inl TaskLocationNotFound, tr1)
          else (Inr (LocationHeader respPost), tr1))"

section \<open>The Create operation of the online update resource\<close>

text \<open>
  A diagnostic of the response: one added by Create with its summary and
  its detail, or one that reading the plan produced.
\<close>

datatype diag =
    AddError string err
  | AddWarning string string
  | PlanError string
  | PlanWarning string

fun isErrorDiag :: "diag \<Rightarrow> bool" where
  "isErrorDiag (AddError summary detail) = True"
| "isErrorDiag (PlanError detail) = True"
| "isErrorDiag _ = False"

definition HasError :: "diag list \<Rightarrow> bool" where
  "HasError ds = list_ex isErrorDiag ds"

text \<open>
  The request: what \<open>req.Plan.Get\<close> yields, the plan and its diagnostics.
  The response: the diagnostics and the state, which is unset until
  \<open>resp.State.Set\<close> stores the plan; storing it adds no diagnostic.
\<close>

record CreateRequest =
  planValue :: OnlineUpdateResourceModel
  planDiags :: "diag list"

record CreateResponse =
  Diagnostics :: "diag list"
  State :: "OnlineUpdateResourceModel option"

datatype outcome = Panic | Returned CreateResponse

definition setState ::
  "CreateResponse \<Rightarrow> OnlineUpdateResourceModel \<Rightarrow> onlineUpdateEndpoints \<Rightarrow> CreateResponse" where
  "setState resp plan endpoints =
     resp\<lparr>State := Some (plan\<lparr>IdAttr := StringValue (checkEndpoint endpoints)\<rparr>)\<rparr>"

definition addDiag :: "CreateResponse \<Rightarrow> diag \<Rightarrow> CreateResponse" where
  "addDiag resp d = resp\<lparr>Diagnostics := Diagnostics resp @ [d]\<rparr>"

text \<open>
  Create, from the vendor detection to the retrieval of the collection: the
  summary and the error of the diagnostic it returns with, or the vendor
  flag and the collection it goes on with.
\<close>

definition Create_fetch ::
  "env \<Rightarrow> event list \<Rightarrow> (string \<times> err + bool \<times> OnlineUpdateCheck) \<times> event list" where
  "Create_fetch e tr =
     (let tr1 = tr @ [VendorCheck] in
      case isFsasCheck e tr of
        Inl msg \<Rightarrow> (Inl (''Vendor Detection Failed'', CollaboratorError msg), tr1)
      | Inr isFsas \<Rightarrow>
          (case CheckELCMLicense e tr1 (GetLicenseEndpoint e isFsas) of
             (Some er, tr2) \<Rightarrow> (Inl (''eLCM License Check Failed'', er), tr2)
           | (None, tr2) \<Rightarrow>
               (let endpoints = GetOnlineUpdateEndpoints e isFsas in
                case IsCollectionCacheValid e tr2 (collectionEndpoint endpoints) of
                  (True, tr3) \<Rightarrow>
                    (case GetOnlineUpdateCollectionWithRetry e tr3
                            (collectionEndpoint endpoints) 3 (1 * Second) of
                       (Inl er, tr4) \<Rightarrow>
                         (Inl (''Failed to retrieve cached collection'', er), tr4)
                     | (Inr collection, tr4) \<Rightarrow> (Inr (isFsas, collection), tr4))
                | (False, tr3) \<Rightarrow>
                    (case TriggerOnlineUpdateCheck e tr3 (checkEndpoint endpoints) of
                       (Inl er, tr4) \<Rightarrow>
                         (Inl (''Trigger Online Update Check Failed'', er), tr4)
                     | (Inr taskLocation, tr4) \<Rightarrow>
                         (case (if taskLocation \<noteq> [] then
                                  CheckOnlineUpdateStatus e tr4 taskLocation
                                    DEFAULT_ONLINEUPDATE_TIMEOUT isFsas
                                else (None, tr4 @ [Sleep (5 * Second)])) of
                            (Some er, tr5) \<Rightarrow>
                              (Inl (''Preaper Online Update Check Task Failed'', er), tr5)
                          | (None, tr5) \<Rightarrow>
                              (case GetOnlineUpdateCollectionWithRetry e tr5
                                      (collectionEndpoint endpoints) 12 (5 * Second) of
                                 (Inl er, tr6) \<Rightarrow>
                                   (Inl (''Collection Retrieval Error after new check'', er),
                                    tr6)
                               | (Inr collection, tr6) \<Rightarrow>
                                   (Inr (isFsas, collection), tr6)))))))"

definition noMatchingUpdates :: diag where
  "noMatchingUpdates =
     AddWarning ''No matching updates found''
       (''The specified 'update_list' did not match any available updates ''
        @ ''in the collection. No updates were executed.'')"

text \<open>Create, from the test for an empty collection to its end.\<close>

definition Create_apply ::
  "env \<Rightarrow> OnlineUpdateResourceModel \<Rightarrow> CreateResponse \<Rightarrow> bool \<Rightarrow> OnlineUpdateCheck
     \<Rightarrow> event list \<Rightarrow> CreateResponse \<times> event list" where
  "Create_apply e plan resp isFsas collection tr =
     (let endpoints = GetOnlineUpdateEndpoints e isFsas in
      if length (UpdateCollection collection) = 0 then (setState resp plan endpoints, tr)
      else
        case PrepareUpdateLists plan collection of
          (Inl er, ws) \<Rightarrow>
            (addDiag resp (AddError ''Failed to prepare update lists'' er), tr @ map Warn ws)
        | (Inr (selected, deselected), ws) \<Rightarrow>
            (case DeselectUpdates e (tr @ map Warn ws)
                    (modifyCollectionEndpoint endpoints) deselected of
               (Some er, tr2) \<Rightarrow>
                 (addDiag resp
                    (AddError ''Failed to deselect updates via ModifyCollection'' er), tr2)
             | (None, tr2) \<Rightarrow>
                 (case BuildExecutePayload plan isFsas of
                    (Inl er, ws2) \<Rightarrow>
                      (addDiag resp (AddError ''Failed to build execute payload'' er),
                       tr2 @ map Warn ws2)
                  | (Inr executePayload, ws2) \<Rightarrow>
                      (let tr3 = tr2 @ map Warn ws2;
                           shouldExecute =
                             (0 < length selected \<or> ListIsNull (UpdateList plan)) in
                       if shouldExecute then
                         (case TriggerOnlineUpdateExecute e tr3 (checkEndpoint endpoints)
                                 executePayload of
                            (Inl er, tr4) \<Rightarrow>
                              (addDiag resp
                                 (AddError ''Trigger Online Update Execute Failed'' er), tr4)
                          | (Inr executeTaskLocation, tr4) \<Rightarrow>
                              (let operationTimeType =
                                     ValueString (ExecuteOnlineUpdOperationTime plan) in
                               if operationTimeType = ''Immediately'' then
                                 (if executeTaskLocation \<noteq> [] then
                                    (case CheckOnlineUpdateStatus e tr4 executeTaskLocation
                                            DEFAULT_ONLINEUPDATE_TIMEOUT isFsas of
                                       (Some er, tr5) \<Rightarrow>
                                         (addDiag resp
                                            (AddError ''Online Update Execute Task Failed'' er),
                                          tr5)
                                     | (None, tr5) \<Rightarrow> (setState resp plan endpoints, tr5))
                                  else
                                    (setState resp plan endpoints,
                                     tr4 @ [Sleep (10 * Second)]))
                               else (setState resp plan endpoints, tr4)))
                       else
                         (if \<not> ListIsNull (UpdateList plan)
                             \<and> 0 < length (UpdateCollection collection)
                             \<and> length selected = 0 \<and> 0 < length deselected then
                            (setState (addDiag resp noMatchingUpdates) plan endpoints, tr3)
                          else (setState resp plan endpoints, tr3))))))"

text \<open>Create between taking and releasing the lock.\<close>

definition Create_locked ::
  "env \<Rightarrow> OnlineUpdateResourceModel \<Rightarrow> CreateResponse \<Rightarrow> event list
     \<Rightarrow> CreateResponse \<times> event list" where
  "Create_locked e plan resp tr =
     (let tr1 = tr @ [Connect] in
      case connectTargetSystem e tr (RedfishServer plan) of
        Some msg \<Rightarrow>
          (addDiag resp (AddError ''Service Connection Error'' (CollaboratorError msg)), tr1)
      | None \<Rightarrow>
          (let done =
                 (case Create_fetch e tr1 of
                    (Inl (summary, er), tr2) \<Rightarrow> (addDiag resp (AddError summary er), tr2)
                  | (Inr (isFsas, collection), tr2) \<Rightarrow>
                      Create_apply e plan resp isFsas collection tr2)
           in (fst done, snd done @ [Logout])))"

definition resourceName :: string where
  "resourceName = ''resource-online-update''"

definition Create :: "env \<Rightarrow> CreateRequest \<Rightarrow> outcome \<times> event list" where
  "Create e req =
     (let plan = planValue req;
          resp = \<lparr>Diagnostics = planDiags req, State = None\<rparr> in
      if HasError (Diagnostics resp) then (Returned resp, [])
      else
        case RedfishServer plan of
          [] \<Rightarrow> (Panic, [])
        | server # others \<Rightarrow>
            (let endpoint = ValueString (Endpoint server);
                 done = Create_locked e plan resp [MutexLock endpoint resourceName]
             in (Returned (fst done), snd done @ [MutexUnlock endpoint resourceName])))"

section \<open>Notions the properties are stated with\<close>

definition designationOf :: "OnlineUpdateCheckItem \<Rightarrow> string" where
  "designationOf item = ValueString (Designation item)"

definition designations :: "OnlineUpdateCheck \<Rightarrow> string list" where
  "designations collection = map designationOf (UpdateCollection collection)"

text \<open>An execute call is a POST of an object whose execution mode is \<open>ExecuteUpdate\<close>.\<close>

fun isExecuteCall :: "event \<Rightarrow> bool" where
  "isExecuteCall (HttpPost endpoint (JObject payload)) =
     (case payload ''ExecutionMode'' of
        Some (JString mode) \<Rightarrow> mode = ''ExecuteUpdate''
      | _ \<Rightarrow> False)"
| "isExecuteCall _ = False"

text \<open>The events of \<open>k\<close> fetches of the collection that each found it in progress.\<close>

fun inProgressRounds :: "string \<Rightarrow> int \<Rightarrow> nat \<Rightarrow> event list" where
  "inProgressRounds endpoint delay 0 = []"
| "inProgressRounds endpoint delay (Suc k) =
     HttpPost endpoint (JObject Map.empty) # Sleep delay # inProgressRounds endpoint delay k"

section \<open>A target system to run the operations on\<close>

definition exampleResponse :: "int \<Rightarrow> string \<Rightarrow> http_response" where
  "exampleResponse code location =
     \<lparr>StatusCode = code, LocationHeader = location, Body = [], ReadError = False,
      CloseError = None\<rparr>"

definition exampleJsonItem :: "string \<Rightarrow> string \<Rightarrow> item_json" where
  "exampleJsonItem designation component =
     \<lparr>json_Designation = designation, json_Component = component, json_SubComponent = [],
      json_Current = ''1.0'', json_New = ''1.1'', json_Severity = ''recommended'',
      json_ItemStatus = [], json_Reboot = ''no'', json_Downloaded = False,
      json_Execution = ''selected'', json_RelNotePath = []\<rparr>"

definition exampleDecoded :: "string \<Rightarrow> item_json list \<Rightarrow> string + collection_json" where
  "exampleDecoded status items =
     Inr \<lparr>json_Status = status, json_LastStatusChangeDate = ''2024-05-01T10:00:00Z'',
          json_UpdateCollection = items\<rparr>"

text \<open>
  A licensed system of the first vendor whose last check is one hour old.
  It answers the fetch of the collection with what \<open>decoded\<close> says, and
  an execute call with status 202 and the task location \<open>location\<close>.
\<close>

definition exampleEnv :: "(string + collection_json) \<Rightarrow> string \<Rightarrow> env" where
  "exampleEnv decoded location =
     \<lparr>connectTargetSystem = (\<lambda>tr servers. None),
      isFsasCheck = (\<lambda>tr. Inr True),
      clientGet = (\<lambda>tr endpoint. Inr (exampleResponse 200 [])),
      clientPost = (\<lambda>tr endpoint payload.
         if isExecuteCall (HttpPost endpoint payload) then Inr (exampleResponse 202 location)
         else Inr (exampleResponse 200 [])),
      waitForRedfishTaskEnd = (\<lambda>tr taskLocation timeout. (True, None)),
      fetchRedfishTaskLog = (\<lambda>tr taskLocation isFsas. ([], False)),
      decodeLicense = (\<lambda>resp. Inr [''eLCM'']),
      decodeCollection = (\<lambda>resp. decoded),
      timeNow = (\<lambda>tr. 3600 * Second),
      timeParseRFC3339 = (\<lambda>s. if s = ''2024-05-01T10:00:00Z'' then Some 0 else None),
      tokenFSAS = ''Fsas'', tokenTS_FUJITSU = ''ts_fujitsu'', tokenFTS = ''FTS''\<rparr>"

definition examplePlan :: "tflist \<Rightarrow> tfstring \<Rightarrow> tfstring \<Rightarrow> OnlineUpdateResourceModel" where
  "examplePlan updates operationTime scheduleTime =
     \<lparr>IdAttr = StringUnknown, RedfishServer = [\<lparr>Endpoint = StringValue ''bmc''\<rparr>],
      UpdateList = updates, ExecuteOnlineUpdOperationTime = operationTime,
      ExecuteOnlineUpdScheduleTime = scheduleTime\<rparr>"

definition exampleCollection :: OnlineUpdateCheck where
  "exampleCollection =
     \<lparr>LastStatusChangeDate = StringValue ''2024-05-01T10:00:00Z'',
      UpdateCollection =
        map toCheckItem [exampleJsonItem ''SystemBoard/A'' ''SystemBoard'',
                         exampleJsonItem ''VendorX/C'' ''VendorX'']\<rparr>"

section \<open>Properties\<close>

subsection \<open>Running the example system\<close>

lemmas example_defs = exampleEnv_def exampleResponse_def exampleJsonItem_def exampleDecoded_def
  examplePlan_def exampleCollection_def toCheckItem_def

lemmas trim_defs = TrimSpace_def TrimLeft_def TrimRight_def whiteSpace_def

lemma example_env_fields:
  "connectTargetSystem (exampleEnv decoded location) tr servers = None"
  "isFsasCheck (exampleEnv decoded location) tr = Inr True"
  "clientGet (exampleEnv decoded location) tr endpoint = Inr (exampleResponse 200 [])"
  "clientPost (exampleEnv decoded location) tr endpoint payload =
     (if isExecuteCall (HttpPost endpoint payload) then Inr (exampleResponse 202 location)
      else Inr (exampleResponse 200 []))"
  "waitForRedfishTaskEnd (exampleEnv decoded location) tr taskLocation timeout = (True, None)"
  "decodeLicense (exampleEnv decoded location) resp = Inr [''eLCM'']"
  "decodeCollection (exampleEnv decoded location) resp = decoded"
  "timeNow (exampleEnv decoded location) tr = 3600 * Second"
  "timeParseRFC3339 (exampleEnv decoded location) s =
     (if s = ''2024-05-01T10:00:00Z'' then Some 0 else None)"
  "tokenFSAS (exampleEnv decoded location) = ''Fsas''"
  by (simp_all add: exampleEnv_def)

lemma example_fetch:
  "GetOnlineUpdateCollection (exampleEnv decoded location) tr endpoint =
     ((case decoded of
         Inl msg \<Rightarrow> Inl (DecodeJSONFailed msg)
       | Inr result \<Rightarrow>
           if json_Status result = ''InProgress'' then Inr InProgress
           else Inr (Ready \<lparr>LastStatusChangeDate = StringValue (json_LastStatusChangeDate result),
                            UpdateCollection = map toCheckItem (json_UpdateCollection result)\<rparr>)),
      tr @ [HttpPost endpoint (JObject Map.empty)])"
  by (simp add: GetOnlineUpdateCollection_def exampleEnv_def exampleResponse_def Let_def
      split: sum.splits)

lemma example_fetch_done:
  "GetOnlineUpdateCollection (exampleEnv (exampleDecoded ''Done'' items) location) tr endpoint =
     (Inr (Ready \<lparr>LastStatusChangeDate = StringValue ''2024-05-01T10:00:00Z'',
                  UpdateCollection = map toCheckItem items\<rparr>),
      tr @ [HttpPost endpoint (JObject Map.empty)])"
  by (simp add: example_fetch) (simp add: exampleDecoded_def)

lemma example_cache_valid:
  "IsCollectionCacheValid (exampleEnv (exampleDecoded ''Done'' items) location) tr endpoint
     = (True, tr @ [HttpPost endpoint (JObject Map.empty)])"
  by (simp add: IsCollectionCacheValid_def GetOnlineUpdateCollectionWithRetry_def numeral_2_eq_2
      example_fetch_done example_env_fields Since_def minDuration_def maxDuration_def
      CACHE_DURATION_def Hour_def Second_def)

lemma example_Create_fetch:
  "fst (Create_fetch (exampleEnv (exampleDecoded ''Done'' items) location) tr)
     = Inr (True, \<lparr>LastStatusChangeDate = StringValue ''2024-05-01T10:00:00Z'',
                   UpdateCollection = map toCheckItem items\<rparr>)"
proof -
  let ?e = "exampleEnv (exampleDecoded ''Done'' items) location"
  have l: "fst (CheckELCMLicense ?e (tr @ [VendorCheck]) (GetLicenseEndpoint ?e True)) = None"
    by (simp add: CheckELCMLicense_def example_env_fields exampleResponse_def Let_def)
  obtain tr2 where l2: "CheckELCMLicense ?e (tr @ [VendorCheck]) (GetLicenseEndpoint ?e True)
                         = (None, tr2)"
    using l by (metis prod.collapse)
  show ?thesis
    by (simp add: Create_fetch_def Let_def example_env_fields l2 example_cache_valid
        GetOnlineUpdateCollectionWithRetry_def numeral_3_eq_3 example_fetch_done)
qed


lemma fold_itemStep:
  "fold (itemStep st a) items (sel, desel) =
     (sel @ map designationOf (filter (isSelected st a) items),
      desel @ (if a then [] else map designationOf (filter (\<lambda>i. \<not> isSelected st a i) items)))"
  by (induction items arbitrary: sel desel) (auto simp: itemStep_def designationOf_def Let_def)

lemma isSelected_applyAll: "isSelected st True item"
  by (simp add: isSelected_def)

lemma requestStep_fields:
  "noneEmptyRequest (fst (requestStep r acc)) = (noneEmptyRequest (fst acc) \<or> TrimSpace r \<noteq> [])"
  "applyOthers (fst (requestStep r acc)) = (applyOthers (fst acc) \<or> TrimSpace r = ''Others'')"
  "requestedDesignations (fst (requestStep r acc)) =
     requestedDesignations (fst acc) \<union>
       (if TrimSpace r \<noteq> ''Others'' \<and> CHR ''/'' \<in> set (TrimSpace r) then {TrimSpace r} else {})"
  "requestedComponents (fst (requestStep r acc)) =
     requestedComponents (fst acc) \<union>
       (if TrimSpace r \<noteq> [] \<and> TrimSpace r \<noteq> ''Others'' \<and> CHR ''/'' \<notin> set (TrimSpace r)
           \<and> TrimSpace r \<in> allowedUpdateComponents then {TrimSpace r} else {})"
  by (auto simp: requestStep_def Let_def)

lemma fold_requestStep_noneEmpty:
  "noneEmptyRequest (fst (fold requestStep reqs acc)) =
     (noneEmptyRequest (fst acc) \<or> (\<exists>r \<in> set reqs. TrimSpace r \<noteq> []))"
  by (induction reqs arbitrary: acc) (auto simp: requestStep_fields)

lemma fold_requestStep_applyOthers:
  "applyOthers (fst (fold requestStep reqs acc)) =
     (applyOthers (fst acc) \<or> ''Others'' \<in> TrimSpace ` set reqs)"
  by (induction reqs arbitrary: acc) (auto simp: requestStep_fields)

lemma fold_requestStep_designations:
  "requestedDesignations (fst (fold requestStep reqs acc)) =
     requestedDesignations (fst acc) \<union>
       {t \<in> TrimSpace ` set reqs. t \<noteq> ''Others'' \<and> CHR ''/'' \<in> set t}"
  by (induction reqs arbitrary: acc) (auto simp: requestStep_fields)

lemma fold_requestStep_components:
  "requestedComponents (fst (fold requestStep reqs acc)) =
     requestedComponents (fst acc) \<union>
       {t \<in> TrimSpace ` set reqs. t \<noteq> [] \<and> t \<noteq> ''Others'' \<and> CHR ''/'' \<notin> set t
          \<and> t \<in> allowedUpdateComponents}"
  by (induction reqs arbitrary: acc) (auto simp: requestStep_fields)


lemma PrepareUpdateLists_known:
  assumes "UpdateList plan = ListValue elems" and "elementsAsStrings elems = Some reqs"
  shows "PrepareUpdateLists plan coll =
     (let scanned = fold requestStep reqs (noRequests, []);
          a = (\<not> noneEmptyRequest (fst scanned)) in
      (Inr (map designationOf (filter (isSelected (fst scanned) a) (UpdateCollection coll)),
            if a then []
            else map designationOf
                   (filter (\<lambda>i. \<not> isSelected (fst scanned) a i) (UpdateCollection coll))),
       snd scanned))"
  using assms by (simp add: PrepareUpdateLists_def Let_def fold_itemStep)

lemma PrepareUpdateLists_not_provided:
  assumes "UpdateList plan = ListNull \<or> UpdateList plan = ListUnknown"
  shows "PrepareUpdateLists plan coll = (Inr (designations coll, []), [])"
  using assms
  by (auto simp: PrepareUpdateLists_def Let_def fold_itemStep noRequests_def
      isSelected_applyAll designations_def)

lemma mset_split_filter:
  "mset (map f (filter P xs)) + mset (map f (filter (\<lambda>x. \<not> P x) xs)) = mset (map f xs)"
  by (induction xs) auto

lemma disjoint_split_filter:
  assumes "distinct (map f xs)"
  shows "set (map f (filter P xs)) \<inter> set (map f (filter (\<lambda>x. \<not> P x) xs)) = {}"
  using assms by (induction xs) auto

lemma union_split_filter:
  "set (map f (filter P xs)) \<union> set (map f (filter (\<lambda>x. \<not> P x) xs)) = set (map f xs)"
  by auto

lemma subseq_map_filter: "subseq (map f (filter P xs)) (map f xs)"
  by (simp add: subseq_map)

text \<open>
  Claim C1. For a desired list of strings with at least one entry that is
  not blank, \<open>PrepareUpdateLists\<close> returns two lists that split the items
  of the collection: a predicate on items exists such that the selected list
  is the designations of the items that satisfy it and the deselected list
  the designations of the others, each in collection order. So every
  occurrence of a designation goes to exactly one list, the two lists cover
  all designations, each list is a subsequence of the collection's
  designations, and where the designations are pairwise distinct no
  designation is in both lists.
\<close>

theorem C1_partition:
  assumes "UpdateList plan = ListValue elems"
    and "elementsAsStrings elems = Some reqs"
    and "\<exists>r \<in> set reqs. TrimSpace r \<noteq> []"
  shows "\<exists>selected deselected ws P.
           PrepareUpdateLists plan coll = (Inr (selected, deselected), ws)
         \<and> selected = map designationOf (filter P (UpdateCollection coll))
         \<and> deselected = map designationOf (filter (\<lambda>i. \<not> P i) (UpdateCollection coll))
         \<and> mset selected + mset deselected = mset (designations coll)
         \<and> set selected \<union> set deselected = set (designations coll)
         \<and> subseq selected (designations coll)
         \<and> subseq deselected (designations coll)
         \<and> (distinct (designations coll) \<longrightarrow> set selected \<inter> set deselected = {})"
proof -
  define scanned where "scanned = fold requestStep reqs (noRequests, [])"
  define P where "P = isSelected (fst scanned) False"
  define selected where "selected = map designationOf (filter P (UpdateCollection coll))"
  define deselected where
    "deselected = map designationOf (filter (\<lambda>i. \<not> P i) (UpdateCollection coll))"
  have "noneEmptyRequest (fst scanned)"
    using assms(3) by (simp add: scanned_def fold_requestStep_noneEmpty)
  then have run: "PrepareUpdateLists plan coll = (Inr (selected, deselected), snd scanned)"
    using PrepareUpdateLists_known[OF assms(1,2), of coll]
    by (simp add: Let_def scanned_def P_def selected_def deselected_def)
  have m: "mset selected + mset deselected = mset (designations coll)"
    unfolding selected_def deselected_def designations_def by (rule mset_split_filter)
  have u: "set selected \<union> set deselected = set (designations coll)"
    unfolding selected_def deselected_def designations_def by (rule union_split_filter)
  have s1: "subseq selected (designations coll)"
    unfolding selected_def designations_def by (rule subseq_map_filter)
  have s2: "subseq deselected (designations coll)"
    unfolding deselected_def designations_def by (rule subseq_map_filter)
  have d: "distinct (designations coll) \<longrightarrow> set selected \<inter> set deselected = {}"
    unfolding selected_def deselected_def designations_def
    using disjoint_split_filter by blast
  show ?thesis
    using run m u s1 s2 d selected_def deselected_def by blast
qed

theorem C1_partition_witness:
  "UpdateList (examplePlan (ListValue [StringValue ''SystemBoard'', StringValue '' ''])
                 (StringValue ''Immediately'') StringNull)
     = ListValue [StringValue ''SystemBoard'', StringValue '' '']
 \<and> elementsAsStrings [StringValue ''SystemBoard'', StringValue '' '']
     = Some [''SystemBoard'', '' '']
 \<and> TrimSpace ''SystemBoard'' \<noteq> []
 \<and> distinct (designations exampleCollection)
 \<and> (\<exists>selected deselected ws.
       PrepareUpdateLists
         (examplePlan (ListValue [StringValue ''SystemBoard'', StringValue '' ''])
            (StringValue ''Immediately'') StringNull) exampleCollection
         = (Inr (selected, deselected), ws)
     \<and> mset selected + mset deselected = mset (designations exampleCollection)
     \<and> set selected \<union> set deselected = set (designations exampleCollection)
     \<and> subseq selected (designations exampleCollection)
     \<and> subseq deselected (designations exampleCollection)
     \<and> set selected \<inter> set deselected = {})"
proof -
  let ?plan = "examplePlan (ListValue [StringValue ''SystemBoard'', StringValue '' ''])
                 (StringValue ''Immediately'') StringNull"
  have h1: "UpdateList ?plan = ListValue [StringValue ''SystemBoard'', StringValue '' '']"
    by (simp add: examplePlan_def)
  have h2: "elementsAsStrings [StringValue ''SystemBoard'', StringValue '' '']
              = Some [''SystemBoard'', '' '']"
    by simp
  have t: "TrimSpace ''SystemBoard'' \<noteq> []"
    by (simp add: trim_defs)
  then have h3: "\<exists>r \<in> set [''SystemBoard'', '' '']. TrimSpace r \<noteq> []"
    by simp
  have d: "distinct (designations exampleCollection)"
    by (simp add: designations_def designationOf_def example_defs)
  from C1_partition[OF h1 h2 h3, of exampleCollection] d
  have "\<exists>selected deselected ws.
       PrepareUpdateLists ?plan exampleCollection = (Inr (selected, deselected), ws)
     \<and> mset selected + mset deselected = mset (designations exampleCollection)
     \<and> set selected \<union> set deselected = set (designations exampleCollection)
     \<and> subseq selected (designations exampleCollection)
     \<and> subseq deselected (designations exampleCollection)
     \<and> set selected \<inter> set deselected = {}"
    by blast
  with h1 h2 t d show ?thesis by blast
qed

text \<open>
  Claim C2. When the desired list is null, or is a list (possibly empty)
  whose entries all trim to the empty string, \<open>PrepareUpdateLists\<close>
  selects the designation of every item, in collection order, and returns an
  empty deselected list.
\<close>

theorem C2_select_all:
  assumes "UpdateList plan = ListNull
         \<or> (\<exists>elems. UpdateList plan = ListValue elems
              \<and> (\<forall>e \<in> set elems. \<exists>s. e = StringValue s \<and> TrimSpace s = []))"
  shows "fst (PrepareUpdateLists plan coll) = Inr (designations coll, [])"
  using assms
proof
  assume "UpdateList plan = ListNull"
  then show ?thesis by (simp add: PrepareUpdateLists_not_provided)
next
  assume "\<exists>elems. UpdateList plan = ListValue elems
              \<and> (\<forall>e \<in> set elems. \<exists>s. e = StringValue s \<and> TrimSpace s = [])"
  then obtain elems where l: "UpdateList plan = ListValue elems"
    and blank: "\<forall>e \<in> set elems. \<exists>s. e = StringValue s \<and> TrimSpace s = []"
    by blast
  from blank have "\<exists>reqs. elementsAsStrings elems = Some reqs \<and> (\<forall>r \<in> set reqs. TrimSpace r = [])"
    by (induction elems) auto
  then obtain reqs where e: "elementsAsStrings elems = Some reqs"
    and b: "\<forall>r \<in> set reqs. TrimSpace r = []"
    by blast
  have "\<not> noneEmptyRequest (fst (fold requestStep reqs (noRequests, [])))"
    using b by (simp add: fold_requestStep_noneEmpty noRequests_def)
  then show ?thesis
    using PrepareUpdateLists_known[OF l e, of coll]
    by (simp add: Let_def isSelected_applyAll designations_def)
qed


theorem C2_select_all_witness:
  "TrimSpace '' '' = [] \<and> TrimSpace [CHR 0x09, CHR 0xC2, CHR 0xA0] = []
 \<and> fst (PrepareUpdateLists
           (examplePlan (ListValue [StringValue '' '', StringValue [CHR 0x09, CHR 0xC2, CHR 0xA0]])
              (StringValue ''Immediately'') StringNull) exampleCollection)
     = Inr ([''SystemBoard/A'', ''VendorX/C''], [])"
proof -
  let ?elems = "[StringValue '' '', StringValue [CHR 0x09, CHR 0xC2, CHR 0xA0]]"
  let ?plan = "examplePlan (ListValue ?elems) (StringValue ''Immediately'') StringNull"
  have b1: "TrimSpace '' '' = []" by (simp add: trim_defs)
  have b2: "TrimSpace [CHR 0x09, CHR 0xC2, CHR 0xA0] = []" by (simp add: trim_defs)
  have h: "UpdateList ?plan = ListNull
         \<or> (\<exists>elems. UpdateList ?plan = ListValue elems
              \<and> (\<forall>e \<in> set elems. \<exists>s. e = StringValue s \<and> TrimSpace s = []))"
    using b1 b2 by (simp add: examplePlan_def)
  have "designations exampleCollection = [''SystemBoard/A'', ''VendorX/C'']"
    by (simp add: designations_def designationOf_def example_defs)
  with C2_select_all[OF h, of exampleCollection] b1 b2 show ?thesis by simp
qed

lemma deselected_item:
  assumes l: "UpdateList plan = ListValue elems"
    and e: "elementsAsStrings elems = Some reqs"
    and n: "noneEmptyRequest (fst (fold requestStep reqs (noRequests, [])))"
    and i: "\<not> isSelected (fst (fold requestStep reqs (noRequests, []))) False item"
  shows "\<exists>selected deselA deselB ws.
      PrepareUpdateLists plan (coll\<lparr>UpdateCollection := pre @ post\<rparr>)
        = (Inr (selected, deselA @ deselB), ws)
    \<and> PrepareUpdateLists plan (coll\<lparr>UpdateCollection := pre @ item # post\<rparr>)
        = (Inr (selected, deselA @ designationOf item # deselB), ws)
    \<and> (distinct (designations (coll\<lparr>UpdateCollection := pre @ item # post\<rparr>))
         \<longrightarrow> designationOf item \<notin> set selected)"
proof -
  define P where "P = isSelected (fst (fold requestStep reqs (noRequests, []))) False"
  define selected where "selected = map designationOf (filter P (pre @ post))"
  define deselA where "deselA = map designationOf (filter (\<lambda>i. \<not> P i) pre)"
  define deselB where "deselB = map designationOf (filter (\<lambda>i. \<not> P i) post)"
  have notP: "\<not> P item" using i by (simp add: P_def)
  have a: "PrepareUpdateLists plan (coll\<lparr>UpdateCollection := pre @ post\<rparr>)
        = (Inr (selected, deselA @ deselB), snd (fold requestStep reqs (noRequests, [])))"
    using PrepareUpdateLists_known[OF l e, of "coll\<lparr>UpdateCollection := pre @ post\<rparr>"] n
    by (simp add: Let_def P_def selected_def deselA_def deselB_def)
  have b: "PrepareUpdateLists plan (coll\<lparr>UpdateCollection := pre @ item # post\<rparr>)
        = (Inr (selected, deselA @ designationOf item # deselB),
           snd (fold requestStep reqs (noRequests, [])))"
    using PrepareUpdateLists_known[OF l e, of "coll\<lparr>UpdateCollection := pre @ item # post\<rparr>"]
      n notP
    by (simp add: Let_def P_def[symmetric] selected_def deselA_def deselB_def)
  have c: "distinct (designations (coll\<lparr>UpdateCollection := pre @ item # post\<rparr>))
         \<longrightarrow> designationOf item \<notin> set selected"
    by (auto simp: designations_def selected_def)
  show ?thesis using a b c by blast
qed

text \<open>
  Claim C3. Take an item whose component is in the allow-list, and a desired
  list of strings that contains \<open>Others\<close> (after trimming) but neither the
  item's designation nor its component. Then the item is not selected,
  wherever it stands in the collection: the selected list is the one obtained
  without the item, and the item's designation is inserted in the deselected
  list at the item's place. Where the designations are distinct, the
  designation is not in the selected list.
\<close>

theorem C3_catch_all_respects_allow_list:
  assumes "UpdateList plan = ListValue elems"
    and "elementsAsStrings elems = Some reqs"
    and "''Others'' \<in> TrimSpace ` set reqs"
    and "ValueString (Component item) \<in> allowedUpdateComponents"
    and "designationOf item \<notin> TrimSpace ` set reqs"
    and "ValueString (Component item) \<notin> TrimSpace ` set reqs"
  shows "\<exists>selected deselA deselB ws.
      PrepareUpdateLists plan (coll\<lparr>UpdateCollection := pre @ post\<rparr>)
        = (Inr (selected, deselA @ deselB), ws)
    \<and> PrepareUpdateLists plan (coll\<lparr>UpdateCollection := pre @ item # post\<rparr>)
        = (Inr (selected, deselA @ designationOf item # deselB), ws)
    \<and> (distinct (designations (coll\<lparr>UpdateCollection := pre @ item # post\<rparr>))
         \<longrightarrow> designationOf item \<notin> set selected)"
proof (rule deselected_item[OF assms(1,2)])
  show "noneEmptyRequest (fst (fold requestStep reqs (noRequests, [])))"
    using assms(3) by (auto simp: fold_requestStep_noneEmpty)
next
  have d: "designationOf item \<notin> requestedDesignations (fst (fold requestStep reqs (noRequests, [])))"
    using assms(5) by (simp add: fold_requestStep_designations noRequests_def)
  have c: "ValueString (Component item)
             \<notin> requestedComponents (fst (fold requestStep reqs (noRequests, [])))"
    using assms(6) by (simp add: fold_requestStep_components noRequests_def)
  show "\<not> isSelected (fst (fold requestStep reqs (noRequests, []))) False item"
    using d c assms(4) by (simp add: isSelected_def designationOf_def Let_def)
qed

theorem C3_catch_all_respects_allow_list_witness:
  "''Others'' \<in> TrimSpace ` set ['' Others'', ''Storage'']
 \<and> ValueString (Component (toCheckItem (exampleJsonItem ''SystemBoard/A'' ''SystemBoard'')))
     \<in> allowedUpdateComponents
 \<and> (\<exists>ws. PrepareUpdateLists
            (examplePlan (ListValue [StringValue '' Others'', StringValue ''Storage''])
               (StringValue ''Immediately'') StringNull) exampleCollection
          = (Inr ([''VendorX/C''], [''SystemBoard/A'']), ws))"
proof -
  let ?plan = "examplePlan (ListValue [StringValue '' Others'', StringValue ''Storage''])
               (StringValue ''Immediately'') StringNull"
  let ?item = "toCheckItem (exampleJsonItem ''SystemBoard/A'' ''SystemBoard'')"
  let ?other = "toCheckItem (exampleJsonItem ''VendorX/C'' ''VendorX'')"
  have tr: "TrimSpace '' Others'' = ''Others''" "TrimSpace ''Storage'' = ''Storage''"
    by (simp_all add: trim_defs)
  have h1: "UpdateList ?plan = ListValue [StringValue '' Others'', StringValue ''Storage'']"
    by (simp add: examplePlan_def)
  have h2: "elementsAsStrings [StringValue '' Others'', StringValue ''Storage'']
              = Some ['' Others'', ''Storage'']"
    by simp
  have h3: "''Others'' \<in> TrimSpace ` set ['' Others'', ''Storage'']"
    by (simp add: tr)
  have h4: "ValueString (Component ?item) \<in> allowedUpdateComponents"
    by (simp add: example_defs allowedUpdateComponents_def)
  have h5: "designationOf ?item \<notin> TrimSpace ` set ['' Others'', ''Storage'']"
    by (simp add: tr designationOf_def example_defs)
  have h6: "ValueString (Component ?item) \<notin> TrimSpace ` set ['' Others'', ''Storage'']"
    by (simp add: tr example_defs)
  have c: "exampleCollection\<lparr>UpdateCollection := [] @ ?item # [?other]\<rparr> = exampleCollection"
    by (simp add: exampleCollection_def)
  from C3_catch_all_respects_allow_list[OF h1 h2 h3 h4 h5 h6,
         where coll = exampleCollection and pre = "[]" and post = "[?other]"]
  obtain selected deselA deselB ws where
    a: "PrepareUpdateLists ?plan (exampleCollection\<lparr>UpdateCollection := [] @ [?other]\<rparr>)
          = (Inr (selected, deselA @ deselB), ws)"
    and b: "PrepareUpdateLists ?plan (exampleCollection\<lparr>UpdateCollection := [] @ ?item # [?other]\<rparr>)
          = (Inr (selected, deselA @ designationOf ?item # deselB), ws)"
    by blast
  have a': "fst (PrepareUpdateLists ?plan (exampleCollection\<lparr>UpdateCollection := [] @ [?other]\<rparr>))
          = Inr ([''VendorX/C''], [])"
    by (simp add: PrepareUpdateLists_def examplePlan_def exampleCollection_def requestStep_def tr
        noRequests_def itemStep_def isSelected_def allowedUpdateComponents_def toCheckItem_def
        exampleJsonItem_def)
  from a a' have "selected = [''VendorX/C'']" "deselA = []" "deselB = []" by simp_all
  with b c have "PrepareUpdateLists ?plan exampleCollection
          = (Inr ([''VendorX/C''], [''SystemBoard/A'']), ws)"
    by (simp add: designationOf_def toCheckItem_def exampleJsonItem_def)
  with h3 h4 show ?thesis by blast
qed

lemma TrimSpace_Others: "TrimSpace ''Others'' = ''Others''"
  by (simp add: TrimSpace_def TrimLeft_def TrimRight_def whiteSpace_def)

text \<open>
  Claim C10. With the desired list \<open>["Others"]\<close>, an item whose component
  is literally \<open>Others\<close> goes to the deselected list: scanning the list only
  sets the catch-all flag and requests no component and no designation, and
  \<open>Others\<close> is itself in the allow-list.
\<close>

theorem C10_component_named_Others:
  assumes "UpdateList plan = ListValue [StringValue ''Others'']"
    and "ValueString (Component item) = ''Others''"
  shows "(\<exists>selected deselA deselB ws.
      PrepareUpdateLists plan (coll\<lparr>UpdateCollection := pre @ post\<rparr>)
        = (Inr (selected, deselA @ deselB), ws)
    \<and> PrepareUpdateLists plan (coll\<lparr>UpdateCollection := pre @ item # post\<rparr>)
        = (Inr (selected, deselA @ designationOf item # deselB), ws)
    \<and> (distinct (designations (coll\<lparr>UpdateCollection := pre @ item # post\<rparr>))
         \<longrightarrow> designationOf item \<notin> set selected))
    \<and> fst (fold requestStep [''Others''] (noRequests, []))
        = \<lparr>requestedDesignations = {}, requestedComponents = {},
           applyOthers = True, noneEmptyRequest = True\<rparr>
    \<and> ''Others'' \<in> allowedUpdateComponents"
proof -
  have scan: "fst (fold requestStep [''Others''] (noRequests, []))
        = \<lparr>requestedDesignations = {}, requestedComponents = {},
           applyOthers = True, noneEmptyRequest = True\<rparr>"
    by (simp add: requestStep_def TrimSpace_Others noRequests_def)
  have allowed: "''Others'' \<in> allowedUpdateComponents"
    by (simp add: allowedUpdateComponents_def)
  have e: "elementsAsStrings [StringValue ''Others''] = Some [''Others'']"
    by simp
  have n: "noneEmptyRequest (fst (fold requestStep [''Others''] (noRequests, [])))"
    by (simp only: scan) simp
  have i: "\<not> isSelected (fst (fold requestStep [''Others''] (noRequests, []))) False item"
    using assms(2) allowed by (simp only: scan) (simp add: isSelected_def)
  show ?thesis
    using deselected_item[OF assms(1) e n i, where coll = coll and pre = pre and post = post]
      scan allowed by blast
qed

theorem C10_component_named_Others_witness:
  "ValueString (Component (toCheckItem (exampleJsonItem ''Others/X'' ''Others''))) = ''Others''
 \<and> (\<exists>ws. PrepareUpdateLists
            (examplePlan (ListValue [StringValue ''Others'']) (StringValue ''Immediately'')
               StringNull)
            (exampleCollection\<lparr>UpdateCollection :=
               [toCheckItem (exampleJsonItem ''VendorX/C'' ''VendorX''),
                toCheckItem (exampleJsonItem ''Others/X'' ''Others'')]\<rparr>)
          = (Inr ([''VendorX/C''], [''Others/X'']), ws))"
proof -
  let ?plan = "examplePlan (ListValue [StringValue ''Others'']) (StringValue ''Immediately'')
               StringNull"
  let ?item = "toCheckItem (exampleJsonItem ''Others/X'' ''Others'')"
  let ?other = "toCheckItem (exampleJsonItem ''VendorX/C'' ''VendorX'')"
  have h1: "UpdateList ?plan = ListValue [StringValue ''Others'']"
    by (simp add: examplePlan_def)
  have h2: "ValueString (Component ?item) = ''Others''"
    by (simp add: example_defs)
  from C10_component_named_Others[OF h1 h2,
         where coll = exampleCollection and pre = "[?other]" and post = "[]"]
  obtain selected deselA deselB ws where
    a: "PrepareUpdateLists ?plan (exampleCollection\<lparr>UpdateCollection := [?other] @ []\<rparr>)
          = (Inr (selected, deselA @ deselB), ws)"
    and b: "PrepareUpdateLists ?plan
              (exampleCollection\<lparr>UpdateCollection := [?other] @ ?item # []\<rparr>)
          = (Inr (selected, deselA @ designationOf ?item # deselB), ws)"
    by blast
  have a': "fst (PrepareUpdateLists ?plan (exampleCollection\<lparr>UpdateCollection := [?other] @ []\<rparr>))
          = Inr ([''VendorX/C''], [])"
    by (simp add: PrepareUpdateLists_def examplePlan_def exampleCollection_def requestStep_def
        trim_defs noRequests_def itemStep_def isSelected_def allowedUpdateComponents_def
        toCheckItem_def exampleJsonItem_def)
  from a a' have "selected = [''VendorX/C'']" "deselA = []" "deselB = []" by simp_all
  with b have "PrepareUpdateLists ?plan
            (exampleCollection\<lparr>UpdateCollection := [?other, ?item]\<rparr>)
          = (Inr ([''VendorX/C''], [''Others/X'']), ws)"
    by (simp add: designationOf_def toCheckItem_def exampleJsonItem_def)
  with h2 show ?thesis by blast
qed

lemma BuildExecutePayload_writes_nothing: "snd (BuildExecutePayload plan isFsas) = []"
  by (simp add: BuildExecutePayload_def Let_def)

lemma BuildExecutePayload_cases:
  "(ExecuteOnlineUpdOperationTime plan = StringValue ''Once''
      \<and> (ExecuteOnlineUpdScheduleTime plan = StringNull
         \<or> ExecuteOnlineUpdScheduleTime plan = StringUnknown)
     \<longrightarrow> fst (BuildExecutePayload plan isFsas) = Inl ScheduleTimeRequired)
 \<and> (ExecuteOnlineUpdOperationTime plan = StringValue ''Immediately''
      \<and> ExecuteOnlineUpdScheduleTime plan = StringValue t
     \<longrightarrow> (\<exists>payload. fst (BuildExecutePayload plan isFsas) = Inr payload
           \<and> payload ''StartDate'' = None
           \<and> payload ''SchedulingType'' = Some (JString ''Immediately'')
           \<and> payload ''ExecutionMode'' = Some (JString ''ExecuteUpdate'')))
 \<and> (ExecuteOnlineUpdOperationTime plan = StringValue ''Once''
      \<and> ExecuteOnlineUpdScheduleTime plan = StringValue t
     \<longrightarrow> (\<exists>payload. fst (BuildExecutePayload plan isFsas) = Inr payload
           \<and> payload ''StartDate'' = Some (JString t)
           \<and> payload ''SchedulingType'' = Some (JString ''Once'')
           \<and> payload ''ExecutionMode'' = Some (JString ''ExecuteUpdate'')))"
  by (auto simp: BuildExecutePayload_def Let_def)

text \<open>
  Claim C6. The claim is that \<open>BuildExecutePayload\<close> fails when the
  operation time is \<open>Once\<close> and no schedule time is given, puts the
  schedule time in \<open>StartDate\<close> when it is given, and, for
  \<open>Immediately\<close> with a schedule time, builds a payload without
  \<open>StartDate\<close> and warns that the schedule time is ignored. The error and
  the payloads are as claimed (\<open>BuildExecutePayload_cases\<close>). The warning
  is not given: the function hands it to \<open>tflog.Warn\<close> with
  \<open>context.Background()\<close>, which carries no logger, so no line is
  written, for this plan and for every other
  (\<open>BuildExecutePayload_writes_nothing\<close>). Here the operation time is
  \<open>Immediately\<close> and a schedule time is given: the payload has no
  \<open>StartDate\<close> and the log stays empty.
\<close>

theorem C6_schedule_warning_not_written:
  "(\<exists>payload.
      BuildExecutePayload
        (examplePlan ListNull (StringValue ''Immediately'') (StringValue ''2030-01-01T00:00:00''))
        True = (Inr payload, [])
    \<and> payload ''StartDate'' = None
    \<and> payload ''SchedulingType'' = Some (JString ''Immediately'')
    \<and> payload ''ExecutionMode'' = Some (JString ''ExecuteUpdate''))
 \<and> tflogWarn ContextBackground ScheduleTimeIgnored = []"
  by (simp add: BuildExecutePayload_def examplePlan_def)

lemma GetOnlineUpdateCollection_trace:
  "snd (GetOnlineUpdateCollection e tr endpoint) = tr @ [HttpPost endpoint (JObject Map.empty)]"
  by (simp add: GetOnlineUpdateCollection_def Let_def split: sum.splits)

lemma retryLoop_exhausted:
  assumes "\<forall>i < k. fst (GetOnlineUpdateCollection e (tr @ inProgressRounds endpoint delay i) endpoint)
                     = Inr InProgress"
  shows "retryLoop e tr endpoint retries delay k
           = (Inl (CollectionNotReady retries), tr @ inProgressRounds endpoint delay k)"
  using assms
proof (induction k arbitrary: tr)
  case 0
  then show ?case by simp
next
  case (Suc k)
  let ?post = "HttpPost endpoint (JObject Map.empty)"
  from Suc.prems have first: "fst (GetOnlineUpdateCollection e tr endpoint) = Inr InProgress"
    by (metis append_Nil2 inProgressRounds.simps(1) zero_less_Suc)
  then have step: "GetOnlineUpdateCollection e tr endpoint = (Inr InProgress, tr @ [?post])"
    using GetOnlineUpdateCollection_trace[of e tr endpoint]
    by (metis prod.collapse)
  have later: "\<forall>i < k. fst (GetOnlineUpdateCollection e
                 ((tr @ [?post, Sleep delay]) @ inProgressRounds endpoint delay i) endpoint)
               = Inr InProgress"
  proof (intro allI impI)
    fix i assume "i < k"
    then have "Suc i < Suc k" by simp
    with Suc.prems show "fst (GetOnlineUpdateCollection e
                 ((tr @ [?post, Sleep delay]) @ inProgressRounds endpoint delay i) endpoint)
               = Inr InProgress"
      by fastforce
  qed
  show ?case
    using Suc.IH[OF later] step by simp
qed

lemma retryLoop_settled:
  assumes "j < k"
    and "\<forall>i < j. fst (GetOnlineUpdateCollection e (tr @ inProgressRounds endpoint delay i) endpoint)
                     = Inr InProgress"
    and "fst (GetOnlineUpdateCollection e (tr @ inProgressRounds endpoint delay j) endpoint) = r"
    and "r \<noteq> Inr InProgress"
  shows "retryLoop e tr endpoint retries delay k
           = ((case r of Inl er \<Rightarrow> Inl er | Inr InProgress \<Rightarrow> Inl (CollectionNotReady retries)
                 | Inr (Ready c) \<Rightarrow> Inr c),
              tr @ inProgressRounds endpoint delay j @ [HttpPost endpoint (JObject Map.empty)])"
  using assms
proof (induction j arbitrary: tr k)
  case 0
  then obtain k' where k: "k = Suc k'" by (cases k) auto
  let ?post = "HttpPost endpoint (JObject Map.empty)"
  from 0 have "GetOnlineUpdateCollection e tr endpoint = (r, tr @ [?post])"
    using GetOnlineUpdateCollection_trace[of e tr endpoint]
    by (metis append_Nil2 inProgressRounds.simps(1) prod.collapse)
  with 0(4) show ?case
    by (simp add: k split: sum.splits fetch.splits)
next
  case (Suc j)
  then obtain k' where k: "k = Suc k'" and jk: "j < k'" by (cases k) auto
  let ?post = "HttpPost endpoint (JObject Map.empty)"
  from Suc.prems(2) have first: "fst (GetOnlineUpdateCollection e tr endpoint) = Inr InProgress"
    by (metis append_Nil2 inProgressRounds.simps(1) zero_less_Suc)
  then have step: "GetOnlineUpdateCollection e tr endpoint = (Inr InProgress, tr @ [?post])"
    using GetOnlineUpdateCollection_trace[of e tr endpoint]
    by (metis prod.collapse)
  have later: "\<forall>i < j. fst (GetOnlineUpdateCollection e
                 ((tr @ [?post, Sleep delay]) @ inProgressRounds endpoint delay i) endpoint)
               = Inr InProgress"
  proof (intro allI impI)
    fix i assume "i < j"
    then have "Suc i < Suc j" by simp
    with Suc.prems(2) show "fst (GetOnlineUpdateCollection e
                 ((tr @ [?post, Sleep delay]) @ inProgressRounds endpoint delay i) endpoint)
               = Inr InProgress"
      by fastforce
  qed
  have last: "fst (GetOnlineUpdateCollection e
                 ((tr @ [?post, Sleep delay]) @ inProgressRounds endpoint delay j) endpoint) = r"
    using Suc.prems(3) by simp
  show ?case
    using Suc.IH[OF jk later last Suc.prems(4)] step by (simp add: k)
qed

text \<open>
  Claim C8. For every budget \<open>n\<close> and delay: when each of the \<open>n\<close>
  fetches finds the collection in progress, \<open>GetOnlineUpdateCollectionWithRetry\<close>
  returns the error that the collection was not ready after \<open>n\<close> retries
  and no collection, after \<open>n\<close> fetches each followed by the delay. When
  the first \<open>j\<close> fetches find it in progress and the next one, still
  within the budget, fails, that error is returned after \<open>j + 1\<close> fetches;
  when the next one yields a collection, the collection is returned after
  \<open>j + 1\<close> fetches.
\<close>

theorem C8_retry_budget:
  "((\<forall>i < nat n. fst (GetOnlineUpdateCollection e (tr @ inProgressRounds endpoint delay i) endpoint)
                    = Inr InProgress)
     \<longrightarrow> GetOnlineUpdateCollectionWithRetry e tr endpoint n delay
           = (Inl (CollectionNotReady n), tr @ inProgressRounds endpoint delay (nat n)))
 \<and> (j < nat n
      \<and> (\<forall>i < j. fst (GetOnlineUpdateCollection e (tr @ inProgressRounds endpoint delay i) endpoint)
                    = Inr InProgress)
      \<and> fst (GetOnlineUpdateCollection e (tr @ inProgressRounds endpoint delay j) endpoint) = Inl er
     \<longrightarrow> GetOnlineUpdateCollectionWithRetry e tr endpoint n delay
           = (Inl er, tr @ inProgressRounds endpoint delay j
                         @ [HttpPost endpoint (JObject Map.empty)]))
 \<and> (j < nat n
      \<and> (\<forall>i < j. fst (GetOnlineUpdateCollection e (tr @ inProgressRounds endpoint delay i) endpoint)
                    = Inr InProgress)
      \<and> fst (GetOnlineUpdateCollection e (tr @ inProgressRounds endpoint delay j) endpoint)
          = Inr (Ready c)
     \<longrightarrow> GetOnlineUpdateCollectionWithRetry e tr endpoint n delay
           = (Inr c, tr @ inProgressRounds endpoint delay j
                        @ [HttpPost endpoint (JObject Map.empty)]))"
proof (intro conjI impI)
  assume "\<forall>i < nat n. fst (GetOnlineUpdateCollection e (tr @ inProgressRounds endpoint delay i) endpoint)
                    = Inr InProgress"
  then show "GetOnlineUpdateCollectionWithRetry e tr endpoint n delay
           = (Inl (CollectionNotReady n), tr @ inProgressRounds endpoint delay (nat n))"
    by (simp add: GetOnlineUpdateCollectionWithRetry_def retryLoop_exhausted)
next
  assume a: "j < nat n
      \<and> (\<forall>i < j. fst (GetOnlineUpdateCollection e (tr @ inProgressRounds endpoint delay i) endpoint)
                    = Inr InProgress)
      \<and> fst (GetOnlineUpdateCollection e (tr @ inProgressRounds endpoint delay j) endpoint) = Inl er"
  then show "GetOnlineUpdateCollectionWithRetry e tr endpoint n delay
           = (Inl er, tr @ inProgressRounds endpoint delay j
                         @ [HttpPost endpoint (JObject Map.empty)])"
    using retryLoop_settled[of j "nat n" e tr endpoint delay "Inl er" n]
    by (simp add: GetOnlineUpdateCollectionWithRetry_def)
next
  assume a: "j < nat n
      \<and> (\<forall>i < j. fst (GetOnlineUpdateCollection e (tr @ inProgressRounds endpoint delay i) endpoint)
                    = Inr InProgress)
      \<and> fst (GetOnlineUpdateCollection e (tr @ inProgressRounds endpoint delay j) endpoint)
          = Inr (Ready c)"
  then show "GetOnlineUpdateCollectionWithRetry e tr endpoint n delay
           = (Inr c, tr @ inProgressRounds endpoint delay j
                        @ [HttpPost endpoint (JObject Map.empty)])"
    using retryLoop_settled[of j "nat n" e tr endpoint delay "Inr (Ready c)" n]
    by (simp add: GetOnlineUpdateCollectionWithRetry_def)
qed

theorem C8_retry_budget_witness:
  "GetOnlineUpdateCollectionWithRetry (exampleEnv (exampleDecoded ''InProgress'' []) []) []
     ''c'' 2 Second
     = (Inl (CollectionNotReady 2),
        [HttpPost ''c'' (JObject Map.empty), Sleep Second,
         HttpPost ''c'' (JObject Map.empty), Sleep Second])
 \<and> GetOnlineUpdateCollectionWithRetry (exampleEnv (Inl ''bad json'') []) []
     ''c'' 2 Second
     = (Inl (DecodeJSONFailed ''bad json''), [HttpPost ''c'' (JObject Map.empty)])
 \<and> GetOnlineUpdateCollectionWithRetry (exampleEnv (exampleDecoded ''Done'' []) []) []
     ''c'' 2 Second
     = (Inr \<lparr>LastStatusChangeDate = StringValue ''2024-05-01T10:00:00Z'',
             UpdateCollection = []\<rparr>,
        [HttpPost ''c'' (JObject Map.empty)])"
proof -
  let ?busy = "exampleEnv (exampleDecoded ''InProgress'' []) []"
  let ?bad = "exampleEnv (Inl ''bad json'') []"
  let ?done = "exampleEnv (exampleDecoded ''Done'' []) []"
  let ?c = "\<lparr>LastStatusChangeDate = StringValue ''2024-05-01T10:00:00Z'',
             UpdateCollection = []\<rparr>"
  have h1: "\<forall>i < nat 2. fst (GetOnlineUpdateCollection ?busy
                             ([] @ inProgressRounds ''c'' Second i) ''c'') = Inr InProgress"
    by (simp add: example_fetch exampleDecoded_def)
  have h2: "0 < nat 2
      \<and> (\<forall>i < 0. fst (GetOnlineUpdateCollection ?bad
                        ([] @ inProgressRounds ''c'' Second i) ''c'') = Inr InProgress)
      \<and> fst (GetOnlineUpdateCollection ?bad ([] @ inProgressRounds ''c'' Second 0) ''c'')
          = Inl (DecodeJSONFailed ''bad json'')"
    by (simp add: example_fetch)
  have h3: "0 < nat 2
      \<and> (\<forall>i < 0. fst (GetOnlineUpdateCollection ?done
                        ([] @ inProgressRounds ''c'' Second i) ''c'') = Inr InProgress)
      \<and> fst (GetOnlineUpdateCollection ?done ([] @ inProgressRounds ''c'' Second 0) ''c'')
          = Inr (Ready ?c)"
    by (simp add: example_fetch exampleDecoded_def)
  have r1: "GetOnlineUpdateCollectionWithRetry ?busy [] ''c'' 2 Second
           = (Inl (CollectionNotReady 2), [] @ inProgressRounds ''c'' Second (nat 2))"
    using C8_retry_budget[where n = 2 and e = ?busy and tr = "[]" and endpoint = "''c''"
        and delay = Second] h1 by blast
  have r2: "GetOnlineUpdateCollectionWithRetry ?bad [] ''c'' 2 Second
           = (Inl (DecodeJSONFailed ''bad json''),
              [] @ inProgressRounds ''c'' Second 0 @ [HttpPost ''c'' (JObject Map.empty)])"
    using C8_retry_budget[where n = 2 and e = ?bad and tr = "[]" and endpoint = "''c''"
        and delay = Second and j = 0 and er = "DecodeJSONFailed ''bad json''"] h2 by blast
  have r3: "GetOnlineUpdateCollectionWithRetry ?done [] ''c'' 2 Second
           = (Inr ?c, [] @ inProgressRounds ''c'' Second 0 @ [HttpPost ''c'' (JObject Map.empty)])"
    using C8_retry_budget[where n = 2 and e = ?done and tr = "[]" and endpoint = "''c''"
        and delay = Second and j = 0 and c = ?c] h3 by blast
  from r1 r2 r3 show ?thesis by (simp add: numeral_2_eq_2)
qed

lemma Since_fresh: "(Since e tr t < CACHE_DURATION) = (timeNow e tr - t < 6 * Hour)"
  by (simp add: Since_def CACHE_DURATION_def Hour_def Second_def minDuration_def
      maxDuration_def Let_def)

text \<open>
  Claim C4. \<open>IsCollectionCacheValid\<close> returns a truth value and no error.
  It is true exactly when the fetch with two attempts one second apart
  yields a collection, the date of its last status change parses as an RFC
  3339 time, and the current time minus that time is less than six hours.
\<close>

theorem C4_cache_validity:
  "fst (IsCollectionCacheValid e tr endpoint) =
     (\<exists>existing tr1 dateStr lastCheckTime.
        GetOnlineUpdateCollectionWithRetry e tr endpoint 2 (1 * Second) = (Inr existing, tr1)
      \<and> LastStatusChangeDate existing = StringValue dateStr
      \<and> timeParseRFC3339 e dateStr = Some lastCheckTime
      \<and> timeNow e tr1 - lastCheckTime < 6 * Hour)"
proof (cases "GetOnlineUpdateCollectionWithRetry e tr endpoint 2 (1 * Second)")
  case (Pair r tr1)
  show ?thesis
  proof (cases r)
    case (Inl er)
    with Pair show ?thesis by (simp add: IsCollectionCacheValid_def)
  next
    case (Inr existing)
    show ?thesis
    proof (cases "LastStatusChangeDate existing")
      case StringNull
      with Pair Inr show ?thesis by (simp add: IsCollectionCacheValid_def)
    next
      case StringUnknown
      with Pair Inr show ?thesis by (simp add: IsCollectionCacheValid_def)
    next
      case (StringValue dateStr)
      with Pair Inr show ?thesis
        by (cases "timeParseRFC3339 e dateStr")
           (simp_all add: IsCollectionCacheValid_def Since_fresh)
    qed
  qed
qed


theorem C4_cache_validity_witness:
  "fst (IsCollectionCacheValid (exampleEnv (exampleDecoded ''Done'' []) []) [] ''c'')
 \<and> \<not> fst (IsCollectionCacheValid (exampleEnv (Inl ''bad json'') []) [] ''c'')"
proof -
  let ?done = "exampleEnv (exampleDecoded ''Done'' []) []"
  let ?bad = "exampleEnv (Inl ''bad json'') []"
  let ?c = "\<lparr>LastStatusChangeDate = StringValue ''2024-05-01T10:00:00Z'',
             UpdateCollection = []\<rparr>"
  have f: "GetOnlineUpdateCollectionWithRetry ?done [] ''c'' 2 (1 * Second)
             = (Inr ?c, [HttpPost ''c'' (JObject Map.empty)])"
    by (simp add: GetOnlineUpdateCollectionWithRetry_def numeral_2_eq_2 example_fetch exampleDecoded_def)
  have p: "timeParseRFC3339 ?done ''2024-05-01T10:00:00Z'' = Some 0"
    by (simp add: exampleEnv_def)
  have n: "timeNow ?done [HttpPost ''c'' (JObject Map.empty)] - 0 < 6 * Hour"
    by (simp add: exampleEnv_def Hour_def Second_def)
  have "\<exists>existing tr1 dateStr lastCheckTime.
        GetOnlineUpdateCollectionWithRetry ?done [] ''c'' 2 (1 * Second) = (Inr existing, tr1)
      \<and> LastStatusChangeDate existing = StringValue dateStr
      \<and> timeParseRFC3339 ?done dateStr = Some lastCheckTime
      \<and> timeNow ?done tr1 - lastCheckTime < 6 * Hour"
    using f p n by (intro exI[of _ ?c] exI[of _ "[HttpPost ''c'' (JObject Map.empty)]"]
        exI[of _ "''2024-05-01T10:00:00Z''"] exI[of _ 0]) simp
  then have a: "fst (IsCollectionCacheValid ?done [] ''c'')"
    using C4_cache_validity[of ?done "[]" "''c''"] by blast
  have g: "GetOnlineUpdateCollectionWithRetry ?bad [] ''c'' 2 (1 * Second)
             = (Inl (DecodeJSONFailed ''bad json''), [HttpPost ''c'' (JObject Map.empty)])"
    by (simp add: GetOnlineUpdateCollectionWithRetry_def numeral_2_eq_2 example_fetch)
  have "\<not> (\<exists>existing tr1 dateStr lastCheckTime.
        GetOnlineUpdateCollectionWithRetry ?bad [] ''c'' 2 (1 * Second) = (Inr existing, tr1)
      \<and> LastStatusChangeDate existing = StringValue dateStr
      \<and> timeParseRFC3339 ?bad dateStr = Some lastCheckTime
      \<and> timeNow ?bad tr1 - lastCheckTime < 6 * Hour)"
    using g by simp
  then have b: "\<not> fst (IsCollectionCacheValid ?bad [] ''c'')"
    using C4_cache_validity[of ?bad "[]" "''c''"] by blast
  from a b show ?thesis by blast
qed

lemma checkPayload_no_execute: "\<not> isExecuteCall (HttpPost endpoint checkPayload)"
  by (simp add: checkPayload_def)


lemma CheckELCMLicense_calls:
  "filter isExecuteCall (snd (CheckELCMLicense e tr endpoint)) = filter isExecuteCall tr"
  by (simp add: CheckELCMLicense_def Let_def split: sum.splits)

lemma TriggerOnlineUpdateCheck_calls:
  "filter isExecuteCall (snd (TriggerOnlineUpdateCheck e tr endpoint)) = filter isExecuteCall tr"
  by (simp add: TriggerOnlineUpdateCheck_def Let_def checkPayload_no_execute split: sum.splits)

lemma GetOnlineUpdateCollection_calls:
  "filter isExecuteCall (snd (GetOnlineUpdateCollection e tr endpoint)) = filter isExecuteCall tr"
  by (simp add: GetOnlineUpdateCollection_trace)

lemma retryLoop_calls:
  "filter isExecuteCall (snd (retryLoop e tr endpoint retries delay k)) = filter isExecuteCall tr"
proof (induction k arbitrary: tr)
  case 0
  then show ?case by simp
next
  case (Suc k)
  obtain r tr1 where g: "GetOnlineUpdateCollection e tr endpoint = (r, tr1)"
    by (cases "GetOnlineUpdateCollection e tr endpoint")
  then have t: "filter isExecuteCall tr1 = filter isExecuteCall tr"
    using GetOnlineUpdateCollection_calls[of e tr endpoint] by simp
  show ?case
    using g t Suc.IH[of "tr1 @ [Sleep delay]"]
    by (simp split: sum.splits fetch.splits)
qed

lemma GetOnlineUpdateCollectionWithRetry_calls:
  "filter isExecuteCall (snd (GetOnlineUpdateCollectionWithRetry e tr endpoint retries delay))
     = filter isExecuteCall tr"
  by (simp add: GetOnlineUpdateCollectionWithRetry_def retryLoop_calls)

lemma CheckOnlineUpdateStatus_calls:
  "filter isExecuteCall (snd (CheckOnlineUpdateStatus e tr location timeout isFsas))
     = filter isExecuteCall tr"
  by (simp add: CheckOnlineUpdateStatus_def Let_def)

lemma IsCollectionCacheValid_calls:
  "filter isExecuteCall (snd (IsCollectionCacheValid e tr endpoint)) = filter isExecuteCall tr"
proof -
  obtain r tr1 where g:
    "GetOnlineUpdateCollectionWithRetry e tr endpoint 2 (1 * Second) = (r, tr1)"
    by (cases "GetOnlineUpdateCollectionWithRetry e tr endpoint 2 (1 * Second)")
  then have t: "filter isExecuteCall tr1 = filter isExecuteCall tr"
    using GetOnlineUpdateCollectionWithRetry_calls[of e tr endpoint 2 "1 * Second"] by simp
  show ?thesis
    using g t by (simp add: IsCollectionCacheValid_def Let_def split: sum.splits option.splits)
qed



lemma Create_fetch_calls:
  "filter isExecuteCall (snd (Create_fetch e tr)) = filter isExecuteCall tr"
proof (cases "isFsasCheck e tr")
  case (Inl msg)
  then show ?thesis by (simp add: Create_fetch_def Let_def)
next
  case (Inr isFsas)
  note fs = Inr
  let ?tr1 = "tr @ [VendorCheck]"
  let ?eps = "GetOnlineUpdateEndpoints e isFsas"
  obtain lic tr2 where l: "CheckELCMLicense e ?tr1 (GetLicenseEndpoint e isFsas) = (lic, tr2)"
    by (cases "CheckELCMLicense e ?tr1 (GetLicenseEndpoint e isFsas)")
  then have t2: "filter isExecuteCall tr2 = filter isExecuteCall tr"
    using CheckELCMLicense_calls[of e ?tr1 "GetLicenseEndpoint e isFsas"] by simp
  show ?thesis
  proof (cases lic)
    case (Some er)
    with fs l t2 show ?thesis by (simp add: Create_fetch_def Let_def)
  next
    case None
    obtain valid tr3 where v: "IsCollectionCacheValid e tr2 (collectionEndpoint ?eps) = (valid, tr3)"
      by (cases "IsCollectionCacheValid e tr2 (collectionEndpoint ?eps)")
    then have t3: "filter isExecuteCall tr3 = filter isExecuteCall tr"
      using IsCollectionCacheValid_calls[of e tr2 "collectionEndpoint ?eps"] t2 by simp
    show ?thesis
    proof (cases valid)
      case True
      obtain r tr4 where g: "GetOnlineUpdateCollectionWithRetry e tr3
                            (collectionEndpoint ?eps) 3 (1 * Second) = (r, tr4)"
        by (cases "GetOnlineUpdateCollectionWithRetry e tr3
                            (collectionEndpoint ?eps) 3 (1 * Second)")
      then have t4: "filter isExecuteCall tr4 = filter isExecuteCall tr"
        using GetOnlineUpdateCollectionWithRetry_calls[of e tr3 "collectionEndpoint ?eps" 3 "1 * Second"]
          t3 by simp
      show ?thesis
        using fs l None v True g t4
        by (simp add: Create_fetch_def Let_def split: sum.splits)
    next
      case False
      obtain c tr4 where c: "TriggerOnlineUpdateCheck e tr3 (checkEndpoint ?eps) = (c, tr4)"
        by (cases "TriggerOnlineUpdateCheck e tr3 (checkEndpoint ?eps)")
      then have t4: "filter isExecuteCall tr4 = filter isExecuteCall tr"
        using TriggerOnlineUpdateCheck_calls[of e tr3 "checkEndpoint ?eps"] t3 by simp
      show ?thesis
      proof (cases c)
        case (Inl er)
        with fs l None v False c t4 show ?thesis
          by (simp add: Create_fetch_def Let_def)
      next
        case (Inr taskLocation)
        note loc = Inr
        define w where "w = (if taskLocation \<noteq> [] then
                                  CheckOnlineUpdateStatus e tr4 taskLocation
                                    DEFAULT_ONLINEUPDATE_TIMEOUT isFsas
                                else (None, tr4 @ [Sleep (5 * Second)]))"
        obtain st tr5 where w': "w = (st, tr5)" by (cases w)
        have t5: "filter isExecuteCall tr5 = filter isExecuteCall tr"
          using w' t4 CheckOnlineUpdateStatus_calls[of e tr4 taskLocation
                        DEFAULT_ONLINEUPDATE_TIMEOUT isFsas]
          by (auto simp: w_def split: if_splits)
        obtain r tr6 where g: "GetOnlineUpdateCollectionWithRetry e tr5
                            (collectionEndpoint ?eps) 12 (5 * Second) = (r, tr6)"
          by (cases "GetOnlineUpdateCollectionWithRetry e tr5
                            (collectionEndpoint ?eps) 12 (5 * Second)")
        then have t6: "filter isExecuteCall tr6 = filter isExecuteCall tr"
          using GetOnlineUpdateCollectionWithRetry_calls[of e tr5 "collectionEndpoint ?eps" 12 "5 * Second"]
            t5 by simp
        show ?thesis
          using fs l None v False c loc w'[unfolded w_def] g t5 t6
          by (simp add: Create_fetch_def Let_def split: sum.splits option.splits)
      qed
    qed
  qed
qed

lemma TriggerOnlineUpdateExecute_location:
  "fst (TriggerOnlineUpdateExecute e tr endpoint payload) \<noteq> Inr []"
  by (simp add: TriggerOnlineUpdateExecute_def Let_def split: sum.splits)






lemma Create_reaches_apply:
  assumes "\<not> HasError (planDiags req)"
    and "RedfishServer (planValue req) = server # others"
    and "connectTargetSystem e [MutexLock (ValueString (Endpoint server)) resourceName]
           (RedfishServer (planValue req)) = None"
    and "Create_fetch e [MutexLock (ValueString (Endpoint server)) resourceName, Connect]
           = (Inr (isFsas, collection), tr)"
  shows "Create e req =
     (Returned (fst (Create_apply e (planValue req)
                       \<lparr>Diagnostics = planDiags req, State = None\<rparr> isFsas collection tr)),
      snd (Create_apply e (planValue req)
             \<lparr>Diagnostics = planDiags req, State = None\<rparr> isFsas collection tr)
        @ [Logout, MutexUnlock (ValueString (Endpoint server)) resourceName])"
  using assms by (simp add: Create_def Create_locked_def Let_def)

lemma Create_fetch_from_start:
  assumes "Create_fetch e [MutexLock a b, Connect] = (r, tr)"
  shows "filter isExecuteCall tr = []"
  using Create_fetch_calls[of e "[MutexLock a b, Connect]"] assms by simp

text \<open>
  Claim C9. When the plan is read without error, the connection succeeds and
  the collection that Create retrieves has no items, Create returns with no
  diagnostic added and the state set to the plan with the check endpoint as
  id, whatever the plan's update list, operation time and schedule time.
  After the retrieval it only logs out and releases the lock: no deselect
  call and no execute call is made.
\<close>

theorem C9_empty_collection:
  assumes "\<not> HasError (planDiags req)"
    and "RedfishServer (planValue req) = server # others"
    and "connectTargetSystem e [MutexLock (ValueString (Endpoint server)) resourceName]
           (RedfishServer (planValue req)) = None"
    and "Create_fetch e [MutexLock (ValueString (Endpoint server)) resourceName, Connect]
           = (Inr (isFsas, collection), tr)"
    and "UpdateCollection collection = []"
  shows "Create e req =
     (Returned
        \<lparr>Diagnostics = planDiags req,
         State = Some ((planValue req)
                   \<lparr>IdAttr := StringValue (checkEndpoint (GetOnlineUpdateEndpoints e isFsas))\<rparr>)\<rparr>,
      tr @ [Logout, MutexUnlock (ValueString (Endpoint server)) resourceName])
   \<and> filter isExecuteCall (snd (Create e req)) = []"
proof -
  have a: "Create_apply e (planValue req) \<lparr>Diagnostics = planDiags req, State = None\<rparr>
             isFsas collection tr
         = (\<lparr>Diagnostics = planDiags req,
             State = Some ((planValue req)
                   \<lparr>IdAttr := StringValue (checkEndpoint (GetOnlineUpdateEndpoints e isFsas))\<rparr>)\<rparr>,
            tr)"
    using assms(5) by (simp add: Create_apply_def Let_def setState_def)
  have c: "Create e req =
     (Returned
        \<lparr>Diagnostics = planDiags req,
         State = Some ((planValue req)
                   \<lparr>IdAttr := StringValue (checkEndpoint (GetOnlineUpdateEndpoints e isFsas))\<rparr>)\<rparr>,
      tr @ [Logout, MutexUnlock (ValueString (Endpoint server)) resourceName])"
    using Create_reaches_apply[OF assms(1-4)] a by simp
  have "filter isExecuteCall (snd (Create e req)) = []"
    using c Create_fetch_from_start[OF assms(4)] by simp
  with c show ?thesis by simp
qed

theorem C9_empty_collection_witness:
  "fst (PrepareUpdateLists (examplePlan (ListValue [StringNull]) (StringValue ''Once'') StringNull)
          \<lparr>LastStatusChangeDate = StringValue ''2024-05-01T10:00:00Z'', UpdateCollection = []\<rparr>)
     = Inl InvalidUpdateListFormat
 \<and> fst (BuildExecutePayload
          (examplePlan (ListValue [StringNull]) (StringValue ''Once'') StringNull) True)
     = Inl ScheduleTimeRequired
 \<and> fst (Create (exampleEnv (exampleDecoded ''Done'' []) [])
          \<lparr>planValue = examplePlan (ListValue [StringNull]) (StringValue ''Once'') StringNull,
             planDiags = [PlanWarning ''deprecated'']\<rparr>)
     = Returned
         \<lparr>Diagnostics = [PlanWarning ''deprecated''],
          State = Some ((examplePlan (ListValue [StringNull]) (StringValue ''Once'') StringNull)
                    \<lparr>IdAttr := StringValue
                       ''/redfish/v1/Systems/0/Oem/Fsas/eLCM/Actions/FsaseLCM.OnlineUpdate''\<rparr>)\<rparr>
 \<and> filter isExecuteCall
       (snd (Create (exampleEnv (exampleDecoded ''Done'' []) [])
          \<lparr>planValue = examplePlan (ListValue [StringNull]) (StringValue ''Once'') StringNull,
             planDiags = [PlanWarning ''deprecated'']\<rparr>)) = []"
proof -
  let ?e = "exampleEnv (exampleDecoded ''Done'' []) []"
  let ?plan = "examplePlan (ListValue [StringNull]) (StringValue ''Once'') StringNull"
  let ?req = "\<lparr>planValue = ?plan, planDiags = [PlanWarning ''deprecated'']\<rparr>"
  let ?c = "\<lparr>LastStatusChangeDate = StringValue ''2024-05-01T10:00:00Z'',
             UpdateCollection = []\<rparr>"
  let ?start = "[MutexLock (ValueString (Endpoint \<lparr>Endpoint = StringValue ''bmc''\<rparr>)) resourceName,
                 Connect]"
  have p: "fst (PrepareUpdateLists ?plan ?c) = Inl InvalidUpdateListFormat"
    by (simp add: PrepareUpdateLists_def examplePlan_def)
  have b: "fst (BuildExecutePayload ?plan True) = Inl ScheduleTimeRequired"
    by (simp add: BuildExecutePayload_def examplePlan_def)
  have h1: "\<not> HasError (planDiags ?req)"
    by (simp add: HasError_def)
  have h2: "RedfishServer (planValue ?req) = \<lparr>Endpoint = StringValue ''bmc''\<rparr> # []"
    by (simp add: examplePlan_def)
  have h3: "connectTargetSystem ?e
              [MutexLock (ValueString (Endpoint \<lparr>Endpoint = StringValue ''bmc''\<rparr>)) resourceName]
              (RedfishServer (planValue ?req)) = None"
    by (simp add: example_env_fields)
  have h4: "Create_fetch ?e ?start = (Inr (True, ?c), snd (Create_fetch ?e ?start))"
    using example_Create_fetch[of "[]" "[]" ?start] by (simp add: prod_eq_iff)
  have h5: "UpdateCollection ?c = []" by simp
  have ep: "checkEndpoint (GetOnlineUpdateEndpoints ?e True)
              = ''/redfish/v1/Systems/0/Oem/Fsas/eLCM/Actions/FsaseLCM.OnlineUpdate''"
    by (simp add: GetOnlineUpdateEndpoints_def actionEndpoint_def example_env_fields)
  note c = C9_empty_collection[OF h1 h2 h3 h4 h5]
  from c have r1: "fst (Create ?e ?req) = Returned
         \<lparr>Diagnostics = [PlanWarning ''deprecated''],
          State = Some (?plan\<lparr>IdAttr := StringValue
                       ''/redfish/v1/Systems/0/Oem/Fsas/eLCM/Actions/FsaseLCM.OnlineUpdate''\<rparr>)\<rparr>"
    using ep by simp
  from c have r2: "filter isExecuteCall (snd (Create ?e ?req)) = []"
    by blast
  from p b r1 r2 show ?thesis by blast
qed




end
